theory Spec2Isabelle
  imports Complex_Main
begin

section \<open>Python values, truthiness and exceptions\<close>

text \<open>
  The values that cross the boundaries of \<^verbatim>\<open>agent.py\<close>: JSON documents sent by the
  model endpoint or posted to the web front end, the keyword arguments of the tools, and
  the dictionaries the tools return. A character of a \<open>string\<close> stands for one code
  point of a Python \<open>str\<close> (code points below 256). A dictionary is the list of its
  items in insertion order.
\<close>

datatype pyval =
    PNone
  | PBool bool
  | PInt int
  | PFloat real
  | PNaN
  | PInf bool
  | PStr string
  | PList "pyval list"
  | PDict "(string \<times> pyval) list"
  | PObject string

text \<open>
  \<open>PNaN\<close> is the float not-a-number (the missing-value marker of pandas), \<open>PInf\<close>
  a float infinity (the negative one when the flag holds), \<open>PFloat\<close> any other float,
  \<open>PObject\<close> an object of another class, named by its class.
\<close>

text \<open>Python's truth test, as used by \<^verbatim>\<open>if x\<close>, \<^verbatim>\<open>x or y\<close> and \<^verbatim>\<open>not x\<close>.\<close>

fun truthy :: "pyval \<Rightarrow> bool" where
  "truthy PNone = False"
| "truthy (PBool b) = b"
| "truthy (PInt i) = (i \<noteq> 0)"
| "truthy (PFloat r) = (r \<noteq> 0)"
| "truthy PNaN = True"
| "truthy (PInf b) = True"
| "truthy (PStr s) = (s \<noteq> [])"
| "truthy (PList xs) = (xs \<noteq> [])"
| "truthy (PDict kvs) = (kvs \<noteq> [])"
| "truthy (PObject c) = True"

definition py_or :: "pyval \<Rightarrow> pyval \<Rightarrow> pyval" where
  "py_or a b = (if truthy a then a else b)"

text \<open>
  An exception derived from Python's \<open>Exception\<close>: its class and the message that
  \<^verbatim>\<open>str(e)\<close> returns.
\<close>

datatype exn = Exception (exn_class: string) (str: string)

abbreviation ValueError :: "string \<Rightarrow> exn" where
  "ValueError m \<equiv> Exception ''ValueError'' m"

abbreviation TypeError :: "string \<Rightarrow> exn" where
  "TypeError m \<equiv> Exception ''TypeError'' m"

abbreviation AttributeError :: "string \<Rightarrow> exn" where
  "AttributeError m \<equiv> Exception ''AttributeError'' m"

text \<open>\<^verbatim>\<open>sep.join(xs)\<close>\<close>

fun join :: "string \<Rightarrow> string list \<Rightarrow> string" where
  "join sep [] = []"
| "join sep [x] = x"
| "join sep (x # y # ys) = x @ sep @ join sep (y # ys)"

text \<open>
  \<^verbatim>\<open>s.strip()\<close>: the white space of Python among the code points below 256.
\<close>

definition isspace :: "char \<Rightarrow> bool" where
  "isspace c = (of_char c \<in> {9, 10, 11, 12, 13, 28, 29, 30, 31, 32, 133, 160 :: nat})"

definition strip :: "string \<Rightarrow> string" where
  "strip s = rev (dropWhile isspace (rev (dropWhile isspace s)))"

section \<open>Responses of the model endpoint\<close>

text \<open>
  The attributes that \<^verbatim>\<open>extract_text\<close> and \<^verbatim>\<open>run_with_tools\<close> read from a response.
  An attribute read with \<^verbatim>\<open>getattr(x, name, default)\<close> may be absent: for \<open>type\<close> an
  absent attribute is the default \<open>''''\<close>; for \<open>text\<close>, \<open>value\<close>, \<open>content\<close> and
  \<open>output\<close>, \<open>None\<close> stands for an attribute that is absent or holds Python's None
  (both fail the truth test that follows every such read).
\<close>

record block =
  block_type :: string
  block_text :: "string option"
  block_value :: "string option"

record item =
  item_type :: string
  content :: "block list option"
  item_text :: "string option"
  item_value :: "string option"
  call_name :: string
  call_id :: string
  arguments :: pyval

record response =
  resp_id :: string
  resp_output :: "item list option"

text \<open>\<^verbatim>\<open>getattr(resp, "output", []) or []\<close>\<close>

definition output_items :: "response \<Rightarrow> item list" where
  "output_items resp = (case resp_output resp of None \<Rightarrow> [] | Some its \<Rightarrow> its)"

subsection \<open>extract_text\<close>

text \<open>
  \<^verbatim>\<open>getattr(x, "text", "") or getattr(x, "value", "")\<close>: the chunk appended for a block
  or an item. The result may be falsy (None or the empty string).
\<close>

definition chunk_of :: "string option \<Rightarrow> string option \<Rightarrow> string option" where
  "chunk_of t v = (case t of Some s \<Rightarrow> (if s \<noteq> [] then Some s else v) | None \<Rightarrow> v)"

text \<open>The inner loop \<^verbatim>\<open>for block in item.content\<close>, appending to \<open>chunks\<close>.\<close>

fun append_blocks :: "block list \<Rightarrow> string option list \<Rightarrow> string option list" where
  "append_blocks [] chunks = chunks"
| "append_blocks (b # bs) chunks =
     append_blocks bs
       (if block_type b = ''output_text'' \<or> block_type b = ''text''
        then chunks @ [chunk_of (block_text b) (block_value b)]
        else chunks)"

text \<open>The outer loop \<^verbatim>\<open>for item in getattr(resp, "output", []) or []\<close>.\<close>

fun append_items :: "item list \<Rightarrow> string option list \<Rightarrow> string option list" where
  "append_items [] chunks = chunks"
| "append_items (it # its) chunks =
     append_items its
       (if item_type it = ''message'' \<and> content it \<noteq> None \<and> content it \<noteq> Some []
        then append_blocks (the (content it)) chunks
        else if item_type it = ''output_text'' \<or> item_type it = ''text''
        then chunks @ [chunk_of (item_text it) (item_value it)]
        else chunks)"

text \<open>\<^verbatim>\<open>[c for c in chunks if c]\<close>\<close>

fun truthy_chunks :: "string option list \<Rightarrow> string list" where
  "truthy_chunks [] = []"
| "truthy_chunks (None # cs) = truthy_chunks cs"
| "truthy_chunks (Some s # cs) = (if s \<noteq> [] then s # truthy_chunks cs else truthy_chunks cs)"

definition extract_text :: "response \<Rightarrow> string" where
  "extract_text resp = join [CHR 0x0A] (truthy_chunks (append_items (output_items resp) []))"

subsection \<open>The extractor as the specification words it\<close>

text \<open>
  The text value of a block or item: its text field when that is a non-empty string,
  otherwise its value field; the empty string when neither holds one.
\<close>

definition spec_text_value :: "string option \<Rightarrow> string option \<Rightarrow> string" where
  "spec_text_value t v =
     (if t \<noteq> None \<and> t \<noteq> Some [] then the t
      else if v \<noteq> None then the v else [])"

definition spec_is_text_type :: "string \<Rightarrow> bool" where
  "spec_is_text_type ty = (ty = ''text'' \<or> ty = ''output_text'')"

text \<open>
  The text values found in one output item, in document order: those of the text
  content blocks of a message item, or that of a bare text item.
\<close>

definition spec_item_texts :: "item \<Rightarrow> string list" where
  "spec_item_texts it =
     (if item_type it = ''message''
      then map (\<lambda>b. spec_text_value (block_text b) (block_value b))
             (filter (\<lambda>b. spec_is_text_type (block_type b))
                (case content it of None \<Rightarrow> [] | Some bs \<Rightarrow> bs))
      else if spec_is_text_type (item_type it)
      then [spec_text_value (item_text it) (item_value it)]
      else [])"

definition spec_extract_text :: "response \<Rightarrow> string" where
  "spec_extract_text resp =
     join [CHR 0x0A]
       (filter (\<lambda>s. s \<noteq> []) (concat (map spec_item_texts (output_items resp))))"

section \<open>The libraries the tools call\<close>

subsection \<open>HTML documents (BeautifulSoup)\<close>

text \<open>
  The tree BeautifulSoup builds: strings that \<^verbatim>\<open>get_text\<close> yields (text and CDATA),
  the special strings it skips (comments, declarations, doctypes, processing
  instructions) and tags with their children. The names follow the bs4 classes.
\<close>

datatype node =
    NavigableString string
  | Comment string
  | Tag string "node list"

text \<open>\<^verbatim>\<open>tag.descendants\<close>: every node below the tag, in document order.\<close>

fun descendants :: "node \<Rightarrow> node list" where
  "descendants (NavigableString s) = []"
| "descendants (Comment s) = []"
| "descendants (Tag n cs) = concat (map (\<lambda>c. c # descendants c) cs)"

fun is_tag_named :: "string list \<Rightarrow> node \<Rightarrow> bool" where
  "is_tag_named names (Tag n cs) = (n \<in> set names)"
| "is_tag_named names (NavigableString s) = False"
| "is_tag_named names (Comment s) = False"

text \<open>\<^verbatim>\<open>tag.find_all(names)\<close> and \<^verbatim>\<open>tag.find(name)\<close> (\<^verbatim>\<open>soup.title\<close> is \<^verbatim>\<open>soup.find("title")\<close>).\<close>

definition find_all :: "string list \<Rightarrow> node \<Rightarrow> node list" where
  "find_all names t = filter (is_tag_named names) (descendants t)"

definition find_tag :: "string \<Rightarrow> node \<Rightarrow> node option" where
  "find_tag name t = (case find_all [name] t of [] \<Rightarrow> None | x # xs \<Rightarrow> Some x)"

text \<open>
  \<^verbatim>\<open>tag.string\<close>: the string of a tag with exactly one child (followed through
  single-child tags), None for a tag with no child or with several.
\<close>

fun string_of :: "node \<Rightarrow> string option" where
  "string_of (NavigableString s) = Some s"
| "string_of (Comment s) = Some s"
| "string_of (Tag n []) = None"
| "string_of (Tag n [c]) = string_of c"
| "string_of (Tag n (c # d # cs)) = None"

text \<open>
  \<^verbatim>\<open>tag.get_text(strip=True)\<close>: the strings below the tag, each stripped, the empty
  ones dropped, concatenated.
\<close>

fun stripped_strings :: "node list \<Rightarrow> string list" where
  "stripped_strings [] = []"
| "stripped_strings (NavigableString s # ns) =
     (if strip s = [] then stripped_strings ns else strip s # stripped_strings ns)"
| "stripped_strings (Comment s # ns) = stripped_strings ns"
| "stripped_strings (Tag n cs # ns) = stripped_strings ns"

definition get_text_strip :: "node \<Rightarrow> string" where
  "get_text_strip t = concat (stripped_strings (descendants t))"

subsection \<open>HTTP (requests)\<close>

text \<open>
  What \<^verbatim>\<open>fetch_url\<close> reads of a \<^verbatim>\<open>requests\<close> response. \<open>http_error\<close> is the message
  of the HTTPError that \<^verbatim>\<open>raise_for_status\<close> raises for a status from 400 to 599.
\<close>

record http_response =
  status_code :: nat
  body_text :: string
  http_error :: string

definition raise_for_status :: "http_response \<Rightarrow> exn option" where
  "raise_for_status r =
     (if 400 \<le> status_code r \<and> status_code r < 600
      then Some (Exception ''HTTPError'' (http_error r)) else None)"

subsection \<open>Data frames (pandas)\<close>

text \<open>
  A frame as pandas stores it: the number of its rows and its columns, each with its
  name, the name of its dtype and one value per row.
\<close>

record column =
  col_name :: string
  col_dtype :: string
  col_values :: "pyval list"

record dataframe =
  n_rows :: nat
  df_cols :: "column list"

text \<open>The frame that \<^verbatim>\<open>df.describe\<close> returns: one row per statistic, named by \<open>stat_names\<close>.\<close>

record description =
  stat_names :: "string list"
  stat_cols :: "column list"

text \<open>\<^verbatim>\<open>d[k] = v\<close> and \<^verbatim>\<open>dict(pairs)\<close>: a later value replaces an earlier one in place.\<close>

fun dict_set :: "string \<Rightarrow> 'v \<Rightarrow> (string \<times> 'v) list \<Rightarrow> (string \<times> 'v) list" where
  "dict_set k v [] = [(k, v)]"
| "dict_set k v (kv # d) = (if fst kv = k then (k, v) # d else kv # dict_set k v d)"

fun dict_of :: "(string \<times> 'v) list \<Rightarrow> (string \<times> 'v) list \<Rightarrow> (string \<times> 'v) list" where
  "dict_of [] d = d"
| "dict_of (kv # kvs) d = dict_of kvs (dict_set (fst kv) (snd kv) d)"

definition py_dict :: "(string \<times> 'v) list \<Rightarrow> (string \<times> 'v) list" where
  "py_dict kvs = dict_of kvs []"

text \<open>\<^verbatim>\<open>pd.isna\<close> on a cell: None and NaN are missing, an infinity is not.\<close>

fun isna :: "pyval \<Rightarrow> bool" where
  "isna PNone = True"
| "isna PNaN = True"
| "isna v = False"

definition df_shape :: "dataframe \<Rightarrow> nat \<times> nat" where
  "df_shape df = (n_rows df, length (df_cols df))"

definition df_columns :: "dataframe \<Rightarrow> string list" where
  "df_columns df = map col_name (df_cols df)"

text \<open>\<^verbatim>\<open>df.count().to_dict()\<close>: the non-missing values of each column.\<close>

definition df_count :: "dataframe \<Rightarrow> (string \<times> nat) list" where
  "df_count df =
     py_dict (map (\<lambda>c. (col_name c, length (filter (\<lambda>v. \<not> isna v) (col_values c)))) (df_cols df))"

text \<open>\<^verbatim>\<open>df.dtypes.to_dict()\<close>\<close>

definition df_dtypes :: "dataframe \<Rightarrow> (string \<times> string) list" where
  "df_dtypes df = py_dict (map (\<lambda>c. (col_name c, col_dtype c)) (df_cols df))"

text \<open>\<^verbatim>\<open>.fillna("")\<close> on the described frame.\<close>

definition fill_value :: "pyval \<Rightarrow> pyval" where
  "fill_value v = (if isna v then PStr [] else v)"

definition fillna :: "description \<Rightarrow> description" where
  "fillna d = d\<lparr>stat_cols := map (\<lambda>c. c\<lparr>col_values := map fill_value (col_values c)\<rparr>) (stat_cols d)\<rparr>"

text \<open>\<^verbatim>\<open>.to_dict()\<close> on the described frame: column to (statistic to value).\<close>

definition description_to_dict :: "description \<Rightarrow> (string \<times> (string \<times> pyval) list) list" where
  "description_to_dict d =
     py_dict (map (\<lambda>c. (col_name c, py_dict (zip (stat_names d) (col_values c)))) (stat_cols d))"

text \<open>\<^verbatim>\<open>df.head(k)\<close> and \<^verbatim>\<open>.to_dict(orient="records")\<close>.\<close>

definition df_head :: "nat \<Rightarrow> dataframe \<Rightarrow> dataframe" where
  "df_head k df =
     \<lparr>n_rows = min k (n_rows df),
      df_cols = map (\<lambda>c. c\<lparr>col_values := take k (col_values c)\<rparr>) (df_cols df)\<rparr>"

definition df_records :: "dataframe \<Rightarrow> (string \<times> pyval) list list" where
  "df_records df =
     map (\<lambda>i. py_dict (map (\<lambda>c. (col_name c, col_values c ! i)) (df_cols df))) [0..<n_rows df]"

text \<open>\<^verbatim>\<open>io.StringIO(initial_value)\<close>: the text of the buffer, or the TypeError of the constructor.\<close>

fun type_name :: "pyval \<Rightarrow> string" where
  "type_name PNone = ''NoneType''"
| "type_name (PBool b) = ''bool''"
| "type_name (PInt i) = ''int''"
| "type_name (PFloat r) = ''float''"
| "type_name PNaN = ''float''"
| "type_name (PInf b) = ''float''"
| "type_name (PStr s) = ''str''"
| "type_name (PList xs) = ''list''"
| "type_name (PDict kvs) = ''dict''"
| "type_name (PObject c) = c"

fun StringIO :: "pyval \<Rightarrow> exn + string" where
  "StringIO (PStr s) = Inr s"
| "StringIO PNone = Inr []"
| "StringIO v = Inl (TypeError (''initial_value must be str or None, not '' @ type_name v))"

subsection \<open>JSON (json.dumps)\<close>

text \<open>
  \<^verbatim>\<open>json.dumps\<close> raises a TypeError at the first object it cannot serialise;
  \<open>unserializable\<close> gives the class of that object. (NaN and the infinities are
  written, as \<^verbatim>\<open>allow_nan\<close> is left at its default.)
\<close>

fun first_some :: "'a option list \<Rightarrow> 'a option" where
  "first_some [] = None"
| "first_some (None # xs) = first_some xs"
| "first_some (Some x # xs) = Some x"

fun unserializable :: "pyval \<Rightarrow> string option" where
  "unserializable (PObject c) = Some c"
| "unserializable (PList xs) = first_some (map unserializable xs)"
| "unserializable (PDict kvs) = first_some (map (\<lambda>kv. unserializable (snd kv)) kvs)"
| "unserializable v = None"

section \<open>The environment\<close>

text \<open>An entry of the batch submitted to the endpoint.\<close>

record tool_output =
  tool_call_id :: string
  output_json :: string

text \<open>
  Everything outside the repository, over a state of the world \<open>'w\<close> that the calls
  read and change: the two calls of the model endpoint, the HTTP GET of \<^verbatim>\<open>requests\<close>,
  the HTML parser, the text pandas reads at a path, the CSV parser and \<^verbatim>\<open>describe\<close> of
  pandas, and the text \<^verbatim>\<open>json.dumps\<close> writes for a serialisable value. A call that
  raises returns \<open>Inl\<close>.
\<close>

record 'w env =
  responses_create :: "string \<Rightarrow> pyval \<Rightarrow> pyval \<Rightarrow> 'w \<Rightarrow> (exn + response) \<times> 'w"
  submit_tool_outputs :: "string \<Rightarrow> tool_output list \<Rightarrow> 'w \<Rightarrow> (exn + response) \<times> 'w"
  requests_get :: "pyval \<Rightarrow> 'w \<Rightarrow> (exn + http_response) \<times> 'w"
  html_parser :: "string \<Rightarrow> node list"
  open_path :: "pyval \<Rightarrow> 'w \<Rightarrow> exn + string"
  pd_read_csv :: "string \<Rightarrow> exn + dataframe"
  df_describe :: "dataframe \<Rightarrow> exn + description"
  json_encode :: "pyval \<Rightarrow> string"

definition json_dumps :: "'w env \<Rightarrow> pyval \<Rightarrow> exn + string" where
  "json_dumps env v =
     (case unserializable v of
        None \<Rightarrow> Inr (json_encode env v)
      | Some c \<Rightarrow> Inl (TypeError (''Object of type '' @ c @ '' is not JSON serializable'')))"

text \<open>\<^verbatim>\<open>BeautifulSoup(html, "html.parser")\<close>: the document object is itself a tag.\<close>

definition BeautifulSoup :: "'w env \<Rightarrow> string \<Rightarrow> node" where
  "BeautifulSoup env html = Tag ''[document]'' (html_parser env html)"

section \<open>The tools\<close>

subsection \<open>fetch_url\<close>

record page =
  title :: string
  h1s :: "string list"
  table_preview :: "string list list option"
  page_length :: nat

text \<open>The loop \<^verbatim>\<open>for tr in table.find_all("tr")[:6]\<close>, appending to \<open>rows\<close>.\<close>

fun append_rows :: "node list \<Rightarrow> string list list \<Rightarrow> string list list" where
  "append_rows [] rows = rows"
| "append_rows (tr # trs) rows =
     append_rows trs (rows @ [map get_text_strip (find_all [''td'', ''th''] tr)])"

text \<open>
  \<^verbatim>\<open>soup.title.string.strip() if soup.title and soup.title.string else ""\<close>
  (a tag is always truthy, a string when it is not empty).
\<close>

definition page_title :: "node \<Rightarrow> string" where
  "page_title soup =
     (case find_tag ''title'' soup of
        None \<Rightarrow> []
      | Some t \<Rightarrow>
          (case string_of t of
             None \<Rightarrow> []
           | Some s \<Rightarrow> (if s \<noteq> [] then strip s else [])))"

definition page_table_preview :: "pyval \<Rightarrow> node \<Rightarrow> string list list option" where
  "page_table_preview take_table soup =
     (if truthy take_table
      then (case find_tag ''table'' soup of
              None \<Rightarrow> None
            | Some table \<Rightarrow> Some (append_rows (take 6 (find_all [''tr''] table)) []))
      else None)"

definition fetch_url :: "'w env \<Rightarrow> pyval \<Rightarrow> pyval \<Rightarrow> 'w \<Rightarrow> (exn + page) \<times> 'w" where
  "fetch_url env url take_table w =
     (case requests_get env url w of
        (Inl e, w1) \<Rightarrow> (Inl e, w1)
      | (Inr resp, w1) \<Rightarrow>
          (case raise_for_status resp of
             Some e \<Rightarrow> (Inl e, w1)
           | None \<Rightarrow>
               (let html = body_text resp;
                    soup = BeautifulSoup env html
                in (Inr \<lparr>title = page_title soup,
                          h1s = map get_text_strip (find_all [''h1''] soup),
                          table_preview = page_table_preview take_table soup,
                          page_length = length html\<rparr>, w1))))"

subsection \<open>analyze_csv\<close>

record profile =
  shape :: "nat \<times> nat"
  columns :: "string list"
  non_null_counts :: "(string \<times> nat) list"
  dtypes :: "(string \<times> string) list"
  describe :: "(string \<times> (string \<times> pyval) list) list"
  head :: "(string \<times> pyval) list list"

text \<open>
  The frame read: \<^verbatim>\<open>pd.read_csv(path)\<close> parses the text found at the path,
  \<^verbatim>\<open>pd.read_csv(io.StringIO(csv))\<close> the inline text.
\<close>

definition read_frame :: "'w env \<Rightarrow> pyval \<Rightarrow> pyval \<Rightarrow> 'w \<Rightarrow> exn + dataframe" where
  "read_frame env csv path w =
     (if truthy path
      then (case open_path env path w of Inl e \<Rightarrow> Inl e | Inr s \<Rightarrow> pd_read_csv env s)
      else if truthy csv
      then (case StringIO csv of Inl e \<Rightarrow> Inl e | Inr s \<Rightarrow> pd_read_csv env s)
      else Inl (ValueError ''Provide csv (string) or path.''))"

definition analyze_csv :: "'w env \<Rightarrow> pyval \<Rightarrow> pyval \<Rightarrow> 'w \<Rightarrow> exn + profile" where
  "analyze_csv env csv path w =
     (case read_frame env csv path w of
        Inl e \<Rightarrow> Inl e
      | Inr df \<Rightarrow>
          (case df_describe env df of
             Inl e \<Rightarrow> Inl e
           | Inr d \<Rightarrow>
               Inr \<lparr>shape = df_shape df,
                    columns = df_columns df,
                    non_null_counts = df_count df,
                    dtypes = df_dtypes df,
                    describe = description_to_dict (fillna d),
                    head = df_records (df_head 5 df)\<rparr>))"

section \<open>The registry and the tool-invocation loop\<close>

text \<open>The dictionaries the tools return, as the values \<^verbatim>\<open>json.dumps\<close> receives.\<close>

definition page_to_py :: "page \<Rightarrow> pyval" where
  "page_to_py p =
     PDict [(''title'', PStr (title p)),
            (''h1s'', PList (map PStr (h1s p))),
            (''table_preview'',
               (case table_preview p of
                  None \<Rightarrow> PNone
                | Some rows \<Rightarrow> PList (map (\<lambda>r. PList (map PStr r)) rows))),
            (''length'', PInt (int (page_length p)))]"

definition profile_to_py :: "profile \<Rightarrow> pyval" where
  "profile_to_py p =
     PDict [(''shape'', PList [PInt (int (fst (shape p))), PInt (int (snd (shape p)))]),
            (''columns'', PList (map PStr (columns p))),
            (''non_null_counts'', PDict (map (\<lambda>kv. (fst kv, PInt (int (snd kv)))) (non_null_counts p))),
            (''dtypes'', PDict (map (\<lambda>kv. (fst kv, PStr (snd kv))) (dtypes p))),
            (''describe'', PDict (map (\<lambda>kv. (fst kv, PDict (snd kv))) (describe p))),
            (''head'', PList (map PDict (head p)))]"

text \<open>
  A tool applied to keyword arguments, \<^verbatim>\<open>tool(**kwargs)\<close>: the interpreter raises a
  TypeError for a keyword the function does not have and for a missing \<open>url\<close>. (The
  wording of the interpreter's own messages varies between versions of CPython.)
\<close>

type_synonym 'w tool = "(string \<times> pyval) list \<Rightarrow> 'w \<Rightarrow> (exn + pyval) \<times> 'w"

definition quoted :: "string \<Rightarrow> string" where
  "quoted s = [CHR 0x27] @ s @ [CHR 0x27]"

definition fetch_url_kw :: "'w env \<Rightarrow> 'w tool" where
  "fetch_url_kw env kwargs w =
     (case filter (\<lambda>k. k \<noteq> ''url'' \<and> k \<noteq> ''take_table'') (map fst kwargs) of
        k # ks \<Rightarrow> (Inl (TypeError (''fetch_url() got an unexpected keyword argument '' @ quoted k)), w)
      | [] \<Rightarrow>
          (case map_of kwargs ''url'' of
             None \<Rightarrow> (Inl (TypeError (''fetch_url() missing 1 required positional argument: '' @ quoted ''url'')), w)
           | Some url \<Rightarrow>
               (case fetch_url env url
                       (case map_of kwargs ''take_table'' of None \<Rightarrow> PBool True | Some t \<Rightarrow> t) w of
                  (Inl e, w1) \<Rightarrow> (Inl e, w1)
                | (Inr p, w1) \<Rightarrow> (Inr (page_to_py p), w1))))"

definition analyze_csv_kw :: "'w env \<Rightarrow> 'w tool" where
  "analyze_csv_kw env kwargs w =
     (case filter (\<lambda>k. k \<noteq> ''csv'' \<and> k \<noteq> ''path'') (map fst kwargs) of
        k # ks \<Rightarrow> (Inl (TypeError (''analyze_csv() got an unexpected keyword argument '' @ quoted k)), w)
      | [] \<Rightarrow>
          (case analyze_csv env
                  (case map_of kwargs ''csv'' of None \<Rightarrow> PNone | Some c \<Rightarrow> c)
                  (case map_of kwargs ''path'' of None \<Rightarrow> PNone | Some p \<Rightarrow> p) w of
             Inl e \<Rightarrow> (Inl e, w)
           | Inr p \<Rightarrow> (Inr (profile_to_py p), w)))"

definition CUSTOM_TOOLS :: "'w env \<Rightarrow> (string \<times> 'w tool) list" where
  "CUSTOM_TOOLS env = [(''fetch_url'', fetch_url_kw env), (''analyze_csv'', analyze_csv_kw env)]"

text \<open>
  \<^verbatim>\<open>CUSTOM_TOOLS[name](**args)\<close> for the value \<open>args\<close> of a request: only a mapping
  can be unpacked. The message names the function, which the registry holds under its
  own name, with its module (\<open>agent\<close>, as the web front end imports it).
\<close>

definition apply_kwargs :: "string \<Rightarrow> 'w tool \<Rightarrow> pyval \<Rightarrow> 'w \<Rightarrow> (exn + pyval) \<times> 'w" where
  "apply_kwargs name tool args w =
     (case args of
        PDict kwargs \<Rightarrow> tool kwargs w
      | _ \<Rightarrow>
          (Inl (TypeError (''agent.'' @ name @ ''() argument after ** must be a mapping, not ''
                           @ type_name args)), w))"

text \<open>
  The body of \<^verbatim>\<open>try\<close> and \<^verbatim>\<open>except Exception as e\<close> for one request found in the
  registry: the serialised result, or the serialised \<^verbatim>\<open>{"error": str(e)}\<close> when the
  tool or the serialisation of its result raises.
\<close>

definition error_payload :: "exn \<Rightarrow> pyval" where
  "error_payload e = PDict [(''error'', PStr (str e))]"

definition call_output :: "'w env \<Rightarrow> 'w tool \<Rightarrow> item \<Rightarrow> 'w \<Rightarrow> tool_output \<times> 'w" where
  "call_output env tool call w =
     (let args = py_or (arguments call) (PDict []) in
      case apply_kwargs (call_name call) tool args w of
        (r, w1) \<Rightarrow>
          (case (case r of Inl e \<Rightarrow> Inl e | Inr result \<Rightarrow> json_dumps env result) of
             Inr s \<Rightarrow> (\<lparr>tool_call_id = call_id call, output_json = s\<rparr>, w1)
           | Inl e \<Rightarrow>
               (\<lparr>tool_call_id = call_id call, output_json = json_encode env (error_payload e)\<rparr>, w1)))"

text \<open>The loop \<^verbatim>\<open>for call in tool_calls\<close>, appending to \<open>tool_outputs\<close>.\<close>

fun run_calls :: "'w env \<Rightarrow> item list \<Rightarrow> tool_output list \<Rightarrow> 'w \<Rightarrow> tool_output list \<times> 'w" where
  "run_calls env [] tool_outputs w = (tool_outputs, w)"
| "run_calls env (call # calls) tool_outputs w =
     (case map_of (CUSTOM_TOOLS env) (call_name call) of
        None \<Rightarrow> run_calls env calls tool_outputs w
      | Some tool \<Rightarrow>
          (case call_output env tool call w of
             (out, w1) \<Rightarrow> run_calls env calls (tool_outputs @ [out]) w1))"

text \<open>\<^verbatim>\<open>[it for it in (getattr(resp, "output", []) or []) if getattr(it, "type", "") == "tool_call"]\<close>\<close>

definition tool_calls :: "response \<Rightarrow> item list" where
  "tool_calls resp = filter (\<lambda>it. item_type it = ''tool_call'') (output_items resp)"

text \<open>
  The loop \<^verbatim>\<open>while True\<close> of \<^verbatim>\<open>run_with_tools\<close>. It runs as long as the endpoint
  keeps requesting tools of the registry, so the model takes the number of iterations
  it may run: the outcome is \<open>None\<close> when they are used up, \<open>Some (Inr resp)\<close> when the
  loop returns \<open>resp\<close>, \<open>Some (Inl e)\<close> when a round-trip raises \<open>e\<close>. The second
  component lists the round-trips issued by \<^verbatim>\<open>submit_tool_outputs\<close>, each with the
  response it answers and the batch it submits.
\<close>

type_synonym round_trip = "response \<times> tool_output list"

fun tool_loop ::
  "nat \<Rightarrow> 'w env \<Rightarrow> response \<Rightarrow> round_trip list \<Rightarrow> 'w
     \<Rightarrow> (exn + response) option \<times> round_trip list \<times> 'w" where
  "tool_loop 0 env resp trips w = (None, trips, w)"
| "tool_loop (Suc n) env resp trips w =
     (if tool_calls resp = [] then (Some (Inr resp), trips, w)
      else
        (case run_calls env (tool_calls resp) [] w of
           (tool_outputs, w1) \<Rightarrow>
             (if tool_outputs \<noteq> []
              then (case submit_tool_outputs env (resp_id resp) tool_outputs w1 of
                      (Inl e, w2) \<Rightarrow> (Some (Inl e), trips @ [(resp, tool_outputs)], w2)
                    | (Inr resp', w2) \<Rightarrow> tool_loop n env resp' (trips @ [(resp, tool_outputs)]) w2)
              else (Some (Inr resp), trips, w1))))"

definition run_with_tools ::
  "nat \<Rightarrow> 'w env \<Rightarrow> string \<Rightarrow> pyval \<Rightarrow> 'w \<Rightarrow> (exn + response) option \<times> round_trip list \<times> 'w" where
  "run_with_tools fuel env prompt tools_config w =
     (case responses_create env ''gpt-4.1''
             (PList [PDict [(''role'', PStr ''user''), (''content'', PStr prompt)]]) tools_config w of
        (Inl e, w1) \<Rightarrow> (Some (Inl e), [], w1)
      | (Inr resp, w1) \<Rightarrow> tool_loop fuel env resp [] w1)"

section \<open>The web front end\<close>

definition FUNCTION_SCHEMAS :: "pyval list" where
  "FUNCTION_SCHEMAS =
     [PDict [(''type'', PStr ''function''),
             (''name'', PStr ''fetch_url''),
             (''description'',
                PStr ''Fetch a URL and summarize structure; useful for scraping and quick page inspection.''),
             (''parameters'',
                PDict [(''type'', PStr ''object''),
                       (''properties'',
                          PDict [(''url'',
                                    PDict [(''type'', PStr ''string''),
                                           (''description'', PStr ''HTTP or HTTPS URL to fetch'')]),
                                 (''take_table'',
                                    PDict [(''type'', PStr ''boolean''),
                                           (''description'', PStr ''Whether to return first table preview''),
                                           (''default'', PBool True)])]),
                       (''required'', PList [PStr ''url'']),
                       (''additionalProperties'', PBool False)])],
      PDict [(''type'', PStr ''function''),
             (''name'', PStr ''analyze_csv''),
             (''description'',
                PStr (''Analyze CSV data from a file path or inline CSV content. Provide either ''
                      @ quoted ''csv'' @ '' or '' @ quoted ''path'' @ ''.'')),
             (''parameters'',
                PDict [(''type'', PStr ''object''),
                       (''properties'',
                          PDict [(''csv'',
                                    PDict [(''type'', PStr ''string''),
                                           (''description'', PStr ''Inline CSV content'')]),
                                 (''path'',
                                    PDict [(''type'', PStr ''string''),
                                           (''description'', PStr ''Path to a CSV file'')])]),
                       (''additionalProperties'', PBool False)])]]"

text \<open>\<^verbatim>\<open>[{"type": "web_search"}, *FUNCTION_SCHEMAS]\<close>\<close>

definition tools_config :: pyval where
  "tools_config = PList (PDict [(''type'', PStr ''web_search'')] # FUNCTION_SCHEMAS)"

text \<open>
  \<^verbatim>\<open>data.get("prompt")\<close> and \<^verbatim>\<open>x.strip()\<close> on values of any type: a value without the
  method raises an AttributeError.
\<close>

definition no_attribute :: "pyval \<Rightarrow> string \<Rightarrow> exn" where
  "no_attribute v a =
     AttributeError (quoted (type_name v) @ '' object has no attribute '' @ quoted a)"

definition dict_get :: "pyval \<Rightarrow> string \<Rightarrow> exn + pyval" where
  "dict_get d k =
     (case d of
        PDict kvs \<Rightarrow> Inr (case map_of kvs k of None \<Rightarrow> PNone | Some v \<Rightarrow> v)
      | _ \<Rightarrow> Inl (no_attribute d ''get''))"

definition str_strip :: "pyval \<Rightarrow> exn + string" where
  "str_strip v = (case v of PStr s \<Rightarrow> Inr (strip s) | _ \<Rightarrow> Inl (no_attribute v ''strip''))"

text \<open>What the handler returns to Flask: the status and the JSON document of the body.\<close>

record reply =
  status :: nat
  json_body :: pyval

text \<open>
  The handler of \<^verbatim>\<open>POST /run\<close>. \<open>body\<close> is what
  \<^verbatim>\<open>request.get_json(force=True, silent=True)\<close> returns: the document that the body of
  the request holds, None when it holds none. The outcome is \<open>Some (Inr r)\<close> when the
  handler returns the reply \<open>r\<close>, \<open>Some (Inl e)\<close> when the exception \<open>e\<close> leaves the
  handler, \<open>None\<close> when the loop uses up its iterations.
\<close>

definition run_endpoint ::
  "nat \<Rightarrow> 'w env \<Rightarrow> pyval \<Rightarrow> 'w \<Rightarrow> (exn + reply) option \<times> round_trip list \<times> 'w" where
  "run_endpoint fuel env body w =
     (let data = py_or body (PDict []) in
      case dict_get data ''prompt'' of
        Inl e \<Rightarrow> (Some (Inl e), [], w)
      | Inr p \<Rightarrow>
          (case str_strip (py_or p (PStr [])) of
             Inl e \<Rightarrow> (Some (Inl e), [], w)
           | Inr prompt \<Rightarrow>
               (if prompt = []
                then (Some (Inr \<lparr>status = 400,
                                 json_body = PDict [(''ok'', PBool False),
                                                    (''error'', PStr ''Missing prompt'')]\<rparr>), [], w)
                else
                  (case run_with_tools fuel env prompt tools_config w of
                     (None, trips, w1) \<Rightarrow> (None, trips, w1)
                   | (Some (Inl e), trips, w1) \<Rightarrow>
                       (Some (Inr \<lparr>status = 500,
                                   json_body = PDict [(''ok'', PBool False),
                                                      (''error'', PStr (str e))]\<rparr>), trips, w1)
                   | (Some (Inr resp), trips, w1) \<Rightarrow>
                       (Some (Inr \<lparr>status = 200,
                                   json_body = PDict [(''ok'', PBool True),
                                                      (''text'', PStr (extract_text resp))]\<rparr>),
                        trips, w1)))))"

section \<open>A sample environment\<close>

text \<open>
  A small world on which the definitions run: files and pages by location, and the
  responses the endpoint will give, in order.
\<close>

record world =
  files :: "(string \<times> string) list"
  pages :: "(string \<times> http_response) list"
  script :: "response list"

definition sample_csv :: string where
  "sample_csv = ''a,b'' @ [CHR 0x0A] @ ''1,x'' @ [CHR 0x0A] @ ''3,y''"

definition sample_frame :: dataframe where
  "sample_frame =
     \<lparr>n_rows = 2,
      df_cols = [\<lparr>col_name = ''a'', col_dtype = ''int64'', col_values = [PInt 1, PInt 3]\<rparr>,
                 \<lparr>col_name = ''b'', col_dtype = ''object'', col_values = [PStr ''x'', PStr ''y'']\<rparr>]\<rparr>"

text \<open>
  What \<^verbatim>\<open>describe(include="all", datetime_is_numeric=True)\<close> of pandas 1.5 returns for
  the sample frame; the standard deviation is the float nearest to the square root
  of 2.
\<close>

definition sample_description :: description where
  "sample_description =
     \<lparr>stat_names = [''count'', ''unique'', ''top'', ''freq'', ''mean'', ''std'', ''min'',
                     ''25%'', ''50%'', ''75%'', ''max''],
      stat_cols =
        [\<lparr>col_name = ''a'', col_dtype = ''float64'',
          col_values = [PFloat 2, PNaN, PNaN, PNaN, PFloat 2,
                        PFloat (6369051672525773 / 4503599627370496), PFloat 1,
                        PFloat (3 / 2), PFloat 2, PFloat (5 / 2), PFloat 3]\<rparr>,
         \<lparr>col_name = ''b'', col_dtype = ''object'',
          col_values = [PInt 2, PInt 2, PStr ''x'', PInt 1, PNaN, PNaN, PNaN,
                        PNaN, PNaN, PNaN, PNaN]\<rparr>]\<rparr>"

definition sample_html :: string where
  "sample_html =
     ''<title> Demo </title><h1>Hello</h1><table><tr><th>k</th></tr><tr><td>a</td></tr></table>''"

definition sample_nested_table :: string where
  "sample_nested_table =
     ''<table><tr><td>o<table><tr><td>i</td></tr></table></td></tr></table>''"

definition sample_documents :: "(string \<times> node list) list" where
  "sample_documents =
     [(sample_html,
       [Tag ''title'' [NavigableString '' Demo ''],
        Tag ''h1'' [NavigableString ''Hello''],
        Tag ''table'' [Tag ''tr'' [Tag ''th'' [NavigableString ''k'']],
                       Tag ''tr'' [Tag ''td'' [NavigableString ''a'']]]]),
      (''<title></title><title>Foo</title>'',
       [Tag ''title'' [], Tag ''title'' [NavigableString ''Foo'']]),
      (''<title>A<b>B</b></title>'',
       [Tag ''title'' [NavigableString ''A'', Tag ''b'' [NavigableString ''B'']]]),
      (sample_nested_table,
       [Tag ''table''
          [Tag ''tr''
             [Tag ''td''
                [NavigableString ''o'',
                 Tag ''table'' [Tag ''tr'' [Tag ''td'' [NavigableString ''i'']]]]]]])]"

definition sample_env :: "world env" where
  "sample_env =
     \<lparr>responses_create = (\<lambda>model input tools w.
        (case script w of
           [] \<Rightarrow> (Inl (Exception ''APIConnectionError'' ''Connection error.''), w)
         | r # rs \<Rightarrow> (Inr r, w\<lparr>script := rs\<rparr>))),
      submit_tool_outputs = (\<lambda>rid outs w.
        (case script w of
           [] \<Rightarrow> (Inl (Exception ''APIConnectionError'' ''Connection error.''), w)
         | r # rs \<Rightarrow> (Inr r, w\<lparr>script := rs\<rparr>))),
      requests_get = (\<lambda>url w.
        (case url of
           PStr u \<Rightarrow>
             (case map_of (pages w) u of
                None \<Rightarrow> (Inl (Exception ''ConnectionError'' ''unreachable''), w)
              | Some r \<Rightarrow> (Inr r, w))
         | _ \<Rightarrow> (Inl (Exception ''MissingSchema'' ''Invalid URL''), w))),
      html_parser = (\<lambda>html.
        (case map_of sample_documents html of None \<Rightarrow> [NavigableString html] | Some ns \<Rightarrow> ns)),
      open_path = (\<lambda>path w.
        (case path of
           PStr p \<Rightarrow>
             (case map_of (files w) p of
                None \<Rightarrow> Inl (Exception ''FileNotFoundError'' ''No such file or directory'')
              | Some s \<Rightarrow> Inr s)
         | _ \<Rightarrow> Inl (ValueError ''Invalid file path or buffer object type''))),
      pd_read_csv = (\<lambda>s.
        if s = sample_csv then Inr sample_frame
        else Inl (Exception ''ParserError'' ''Error tokenizing data'')),
      df_describe = (\<lambda>df. Inr sample_description),
      json_encode = (\<lambda>v. (case v of PDict kvs \<Rightarrow> concat (map fst kvs) | _ \<Rightarrow> type_name v))\<rparr>"

definition page_of :: "string \<Rightarrow> http_response" where
  "page_of html = \<lparr>status_code = 200, body_text = html, http_error = []\<rparr>"

definition tool_call :: "string \<Rightarrow> string \<Rightarrow> pyval \<Rightarrow> item" where
  "tool_call i n args =
     \<lparr>item_type = ''tool_call'', content = None, item_text = None, item_value = None,
      call_name = n, call_id = i, arguments = args\<rparr>"

definition text_item :: "string \<Rightarrow> item" where
  "text_item s =
     \<lparr>item_type = ''output_text'', content = None, item_text = Some s, item_value = None,
      call_name = [], call_id = [], arguments = PNone\<rparr>"

definition sample_world :: world where
  "sample_world =
     \<lparr>files = [(''data.csv'', sample_csv), (''notes.txt'', ''hello'')],
      pages = [(''http://demo/'', page_of sample_html),
               (''http://two/'', page_of ''<title></title><title>Foo</title>''),
               (''http://nested/'', page_of ''<title>A<b>B</b></title>''),
               (''http://tables/'', page_of sample_nested_table)],
      script = []\<rparr>"

text \<open>The profile of the sample file.\<close>

definition sample_summary :: profile where
  "sample_summary =
     \<lparr>shape = (2, 2),
      columns = [''a'', ''b''],
      non_null_counts = [(''a'', 2), (''b'', 2)],
      dtypes = [(''a'', ''int64''), (''b'', ''object'')],
      describe =
        [(''a'',
          [(''count'', PFloat 2), (''unique'', PStr []), (''top'', PStr []), (''freq'', PStr []),
           (''mean'', PFloat 2), (''std'', PFloat (6369051672525773 / 4503599627370496)),
           (''min'', PFloat 1), (''25%'', PFloat (3 / 2)), (''50%'', PFloat 2),
           (''75%'', PFloat (5 / 2)), (''max'', PFloat 3)]),
         (''b'',
          [(''count'', PInt 2), (''unique'', PInt 2), (''top'', PStr ''x''), (''freq'', PInt 1),
           (''mean'', PStr []), (''std'', PStr []), (''min'', PStr []), (''25%'', PStr []),
           (''50%'', PStr []), (''75%'', PStr []), (''max'', PStr [])])],
      head = [[(''a'', PInt 1), (''b'', PStr ''x'')], [(''a'', PInt 3), (''b'', PStr ''y'')]]\<rparr>"

definition sample_message :: response where
  "sample_message =
     \<lparr>resp_id = ''resp_3'',
      resp_output =
        Some [\<lparr>item_type = ''message'',
               content =
                 Some [\<lparr>block_type = ''output_text'', block_text = Some ''Hello'', block_value = None\<rparr>,
                       \<lparr>block_type = ''text'', block_text = Some [], block_value = Some ''world''\<rparr>,
                       \<lparr>block_type = ''refusal'', block_text = Some ''no'', block_value = None\<rparr>,
                       \<lparr>block_type = ''text'', block_text = None, block_value = None\<rparr>],
               item_text = None, item_value = None,
               call_name = [], call_id = [], arguments = PNone\<rparr>,
              text_item ''Bye'']\<rparr>"

definition sample_answer :: response where
  "sample_answer = \<lparr>resp_id = ''resp_2'', resp_output = Some [text_item ''Done.'']\<rparr>"

text \<open>
  Three first responses of the endpoint: one requesting a tool of the registry and a
  tool that is not in it, one requesting only a tool that is not in it, one requesting
  a page from a host that does not answer.
\<close>

definition sample_mixed_request :: response where
  "sample_mixed_request =
     \<lparr>resp_id = ''resp_1'',
      resp_output = Some [tool_call ''call_1'' ''fetch_url'' (PDict [(''url'', PStr ''http://demo/'')]),
                          tool_call ''call_2'' ''lookup_weather'' (PDict [(''city'', PStr ''Oslo'')])]\<rparr>"

definition sample_unknown_request :: response where
  "sample_unknown_request =
     \<lparr>resp_id = ''resp_1'',
      resp_output = Some [tool_call ''call_1'' ''lookup_weather'' (PDict [(''city'', PStr ''Oslo'')])]\<rparr>"

definition sample_failing_request :: response where
  "sample_failing_request =
     \<lparr>resp_id = ''resp_1'',
      resp_output = Some [tool_call ''call_1'' ''fetch_url'' (PDict [(''url'', PStr ''http://down/'')])]\<rparr>"

definition mixed_world :: world where
  "mixed_world = sample_world\<lparr>script := [sample_mixed_request, sample_answer]\<rparr>"

definition unknown_world :: world where
  "unknown_world = sample_world\<lparr>script := [sample_unknown_request, sample_answer]\<rparr>"

definition failing_world :: world where
  "failing_world = sample_world\<lparr>script := [sample_failing_request, sample_answer]\<rparr>"

section \<open>The properties claimed\<close>

subsection \<open>Results and requests of a round-trip\<close>

text \<open>The names of the registry.\<close>

definition registered :: "string \<Rightarrow> bool" where
  "registered n = (n = ''fetch_url'' \<or> n = ''analyze_csv'')"

text \<open>The number of results in the batch of a round-trip that carry the id of a request.\<close>

definition results_for :: "round_trip \<Rightarrow> item \<Rightarrow> nat" where
  "results_for trip c = length (filter (\<lambda>out. tool_call_id out = call_id c) (snd trip))"

text \<open>
  The invariant as the specification words it: every request of the response receives
  exactly one result with its id in the batch submitted.
\<close>

definition spec_answers_all :: "round_trip \<Rightarrow> bool" where
  "spec_answers_all trip = list_all (\<lambda>c. results_for trip c = 1) (tool_calls (fst trip))"

text \<open>
  What the loop maintains: the batch is not empty, and its ids are the ids of the
  requests whose name is in the registry, in the order of the requests.
\<close>

definition answers_registered :: "round_trip \<Rightarrow> bool" where
  "answers_registered trip =
     (snd trip \<noteq> [] \<and>
      map tool_call_id (snd trip) =
        map call_id (filter (\<lambda>c. registered (call_name c)) (tool_calls (fst trip))))"

subsection \<open>The page title and the table as the specification words them\<close>

text \<open>
  The text of a title element (its strings, concatenated and stripped), and the first
  non-empty text among the title elements of the page, the empty string if there is
  none.
\<close>

fun all_strings :: "node list \<Rightarrow> string list" where
  "all_strings [] = []"
| "all_strings (NavigableString s # ns) = s # all_strings ns"
| "all_strings (Comment s # ns) = all_strings ns"
| "all_strings (Tag n cs # ns) = all_strings ns"

definition spec_title_text :: "node \<Rightarrow> string" where
  "spec_title_text t = strip (concat (all_strings (descendants t)))"

definition spec_title :: "node \<Rightarrow> string" where
  "spec_title soup =
     (case filter (\<lambda>s. s \<noteq> []) (map spec_title_text (find_all [''title''] soup)) of
        [] \<Rightarrow> []
      | s # ss \<Rightarrow> s)"

text \<open>
  The rows of a table are its \<open>tr\<close> elements: children of the table or of one of its
  sections. The cells of a row are the \<open>td\<close> and \<open>th\<close> elements among its children.
\<close>

fun children :: "node \<Rightarrow> node list" where
  "children (Tag n cs) = cs"
| "children (NavigableString s) = []"
| "children (Comment s) = []"

definition spec_rows :: "node \<Rightarrow> node list" where
  "spec_rows table =
     concat (map (\<lambda>c. if is_tag_named [''tr''] c then [c]
                       else if is_tag_named [''thead'', ''tbody'', ''tfoot''] c
                       then filter (is_tag_named [''tr'']) (children c)
                       else [])
               (children table))"

definition spec_cells :: "node \<Rightarrow> node list" where
  "spec_cells tr = filter (is_tag_named [''td'', ''th'']) (children tr)"

text \<open>
  A table with nothing nested: no row lies inside one of its rows or outside of them,
  and no cell lies inside a child of one of its rows.
\<close>

definition flat_table :: "node \<Rightarrow> bool" where
  "flat_table table =
     list_all (\<lambda>c. if is_tag_named [''thead'', ''tbody'', ''tfoot''] c
                     then list_all (\<lambda>r. find_all [''tr''] r = []) (children c)
                     else find_all [''tr''] c = [])
       (children table)"

definition flat_row :: "node \<Rightarrow> bool" where
  "flat_row tr = list_all (\<lambda>c. find_all [''td'', ''th''] c = []) (children tr)"

section \<open>Theorems\<close>

lemma truthy_chunks_append:
  "truthy_chunks (xs @ ys) = truthy_chunks xs @ truthy_chunks ys"
  by (induction xs rule: truthy_chunks.induct) simp_all

lemma truthy_chunks_chunk_of:
  "truthy_chunks [chunk_of t v] = filter (\<lambda>s. s \<noteq> []) [spec_text_value t v]"
  by (cases t; cases v) (simp_all add: chunk_of_def spec_text_value_def)

lemma append_blocks_acc:
  "truthy_chunks (append_blocks bs chunks) =
     truthy_chunks chunks @
     filter (\<lambda>s. s \<noteq> [])
       (map (\<lambda>b. spec_text_value (block_text b) (block_value b))
          (filter (\<lambda>b. spec_is_text_type (block_type b)) bs))"
proof (induction bs arbitrary: chunks)
  case Nil
  show ?case by simp
next
  case (Cons b bs)
  have one: "truthy_chunks [chunk_of (block_text b) (block_value b)] =
      filter (\<lambda>s. s \<noteq> []) [spec_text_value (block_text b) (block_value b)]"
    by (rule truthy_chunks_chunk_of)
  show ?case
  proof (cases "spec_is_text_type (block_type b)")
    case True
    then have ty: "block_type b = ''output_text'' \<or> block_type b = ''text''"
      by (auto simp: spec_is_text_type_def)
    show ?thesis
      using True ty one by (simp add: Cons.IH truthy_chunks_append)
  next
    case False
    then have ty: "\<not> (block_type b = ''output_text'' \<or> block_type b = ''text'')"
      by (auto simp: spec_is_text_type_def)
    show ?thesis
      using False ty by (simp add: Cons.IH)
  qed
qed

lemma append_item_step:
  "truthy_chunks
     (if item_type it = ''message'' \<and> content it \<noteq> None \<and> content it \<noteq> Some []
      then append_blocks (the (content it)) chunks
      else if item_type it = ''output_text'' \<or> item_type it = ''text''
      then chunks @ [chunk_of (item_text it) (item_value it)]
      else chunks) =
   truthy_chunks chunks @ filter (\<lambda>s. s \<noteq> []) (spec_item_texts it)"
proof (cases "item_type it = ''message''")
  case True
  show ?thesis
  proof (cases "content it")
    case None
    with True show ?thesis by (simp add: spec_item_texts_def)
  next
    case (Some bs)
    with True show ?thesis
      by (cases bs) (simp_all add: spec_item_texts_def append_blocks_acc del: append_blocks.simps)
  qed
next
  case False
  then show ?thesis
    using truthy_chunks_chunk_of [of "item_text it" "item_value it"]
    by (auto simp: spec_item_texts_def spec_is_text_type_def truthy_chunks_append)
qed

lemma append_items_acc:
  "truthy_chunks (append_items its chunks) =
     truthy_chunks chunks @ filter (\<lambda>s. s \<noteq> []) (concat (map spec_item_texts its))"
proof (induction its arbitrary: chunks)
  case Nil
  show ?case by simp
next
  case (Cons it its)
  show ?case
    by (simp only: append_items.simps Cons.IH append_item_step)
       simp
qed

text \<open>
  C6. For every response, \<open>extract_text\<close> returns the newline-joined concatenation of
  the text values found in document order (text blocks of message items and bare text
  items), skipping empty strings and preferring the text field over the value field.
\<close>

theorem extract_text_refines_spec:
  "extract_text resp = spec_extract_text resp"
  by (simp add: extract_text_def spec_extract_text_def append_items_acc)

theorem extract_text_refines_spec_witness:
  "extract_text sample_message = ''Hello'' @ [CHR 0x0A] @ ''world'' @ [CHR 0x0A] @ ''Bye''"
  using extract_text_refines_spec [of sample_message]
  by (simp add: spec_extract_text_def spec_item_texts_def spec_text_value_def spec_is_text_type_def
      output_items_def sample_message_def text_item_def)

subsection \<open>analyze_csv\<close>

lemma dict_set_fresh: "k \<notin> fst ` set d \<Longrightarrow> dict_set k v d = d @ [(k, v)]"
  by (induction d) auto

lemma dict_of_distinct:
  "distinct (map fst kvs) \<Longrightarrow> fst ` set kvs \<inter> fst ` set d = {} \<Longrightarrow> dict_of kvs d = d @ kvs"
proof (induction kvs arbitrary: d)
  case Nil
  show ?case by simp
next
  case (Cons kv kvs)
  have fresh: "fst kv \<notin> fst ` set d" using Cons.prems(2) by auto
  have step: "dict_set (fst kv) (snd kv) d = d @ [kv]"
    using dict_set_fresh [OF fresh, of "snd kv"] by simp
  have "dict_of kvs (d @ [kv]) = (d @ [kv]) @ kvs"
    using Cons.prems by (intro Cons.IH) auto
  then show ?case by (simp add: step)
qed

lemma py_dict_distinct: "distinct (map fst kvs) \<Longrightarrow> py_dict kvs = kvs"
  using dict_of_distinct [of kvs "[]"] by (simp add: py_dict_def)

lemma dict_set_values: "snd ` set (dict_set k v d) \<subseteq> insert v (snd ` set d)"
  by (induction d) auto

lemma dict_of_values: "snd ` set (dict_of kvs d) \<subseteq> snd ` set kvs \<union> snd ` set d"
proof (induction kvs arbitrary: d)
  case Nil
  show ?case by simp
next
  case (Cons kv kvs)
  show ?case using Cons.IH [of "dict_set (fst kv) (snd kv) d"] dict_set_values [of "fst kv" "snd kv" d]
    by auto
qed

lemma py_dict_values: "snd ` set (py_dict kvs) \<subseteq> snd ` set kvs"
  using dict_of_values [of kvs "[]"] by (simp add: py_dict_def)

lemma fill_value_not_na: "\<not> isna (fill_value v)"
  by (cases v) (simp_all add: fill_value_def)

lemma py_dict_valueD:
  assumes "kv \<in> set (py_dict kvs)"
  shows "\<exists>kv' \<in> set kvs. snd kv' = snd kv"
proof -
  from assms have "snd kv \<in> snd ` set (py_dict kvs)" by (rule imageI)
  with py_dict_values [of kvs] have "snd kv \<in> snd ` set kvs" by (rule subsetD)
  then obtain kv' where "kv' \<in> set kvs" and "snd kv = snd kv'" by (rule imageE)
  then show ?thesis by (intro bexI [of _ kv']) simp_all
qed

lemma filled_values:
  assumes "c \<in> set (stat_cols (fillna d))" and "v \<in> set (col_values c)"
  shows "\<not> isna v"
proof -
  from assms(1) have "\<exists>c0. c = c0\<lparr>col_values := map fill_value (col_values c0)\<rparr>"
    by (auto simp: fillna_def)
  then obtain c0 where "c = c0\<lparr>col_values := map fill_value (col_values c0)\<rparr>" ..
  then have "col_values c = map fill_value (col_values c0)" by simp
  with assms(2) show ?thesis by (auto simp: fill_value_not_na)
qed

lemma describe_filled:
  "list_all (\<lambda>kv. list_all (\<lambda>sv. \<not> isna (snd sv)) (snd kv)) (description_to_dict (fillna d))"
proof -
  have "\<not> isna (snd sv)" if kv: "kv \<in> set (description_to_dict (fillna d))" and sv: "sv \<in> set (snd kv)" for kv sv
  proof -
    from kv have "\<exists>kv' \<in> set (map (\<lambda>c. (col_name c, py_dict (zip (stat_names (fillna d)) (col_values c)))) (stat_cols (fillna d))). snd kv' = snd kv"
      unfolding description_to_dict_def by (rule py_dict_valueD)
    then obtain c where cin: "c \<in> set (stat_cols (fillna d))"
        and c: "snd kv = py_dict (zip (stat_names (fillna d)) (col_values c))"
      by auto
    from sv c have "sv \<in> set (py_dict (zip (stat_names (fillna d)) (col_values c)))" by simp
    then have "\<exists>sv' \<in> set (zip (stat_names (fillna d)) (col_values c)). snd sv' = snd sv"
      by (rule py_dict_valueD)
    then obtain sv' where sv': "sv' \<in> set (zip (stat_names (fillna d)) (col_values c))" and eq2: "snd sv' = snd sv"
      by auto
    have "snd sv' \<in> set (col_values c)"
      using sv' set_zip_rightD [of "fst sv'" "snd sv'"] by simp
    with eq2 have "snd sv \<in> set (col_values c)" by simp
    with cin show ?thesis by (rule filled_values)
  qed
  then show ?thesis by (simp add: list_all_iff)
qed


lemma sample_summary_eq:
  "\<lparr>shape = df_shape sample_frame, columns = df_columns sample_frame,
     non_null_counts = df_count sample_frame, dtypes = df_dtypes sample_frame,
     describe = description_to_dict (fillna sample_description),
     head = df_records (df_head 5 sample_frame)\<rparr> = sample_summary"
  by (simp add: sample_summary_def sample_frame_def sample_description_def df_shape_def
      df_columns_def df_count_def df_dtypes_def description_to_dict_def fillna_def fill_value_def
      df_records_def df_head_def py_dict_def upt_rec numeral_2_eq_2)

lemma sample_profile:
  "analyze_csv sample_env csv (PStr ''data.csv'') sample_world = Inr sample_summary"
  by (simp add: analyze_csv_def read_frame_def sample_env_def sample_world_def sample_summary_eq)

text \<open>
  C5. Called with neither \<open>csv\<close> nor \<open>path\<close> (both None, or no keyword at all),
  \<open>analyze_csv\<close> raises the ValueError "Provide csv (string) or path.": the failure is
  a value of the model, not a crash. Providing both is tolerated: the call with both
  keywords binds them and runs the function. When a path is provided (it passes the
  truth test that the code applies), the text at the path is read, parsed and
  profiled, whatever \<open>csv\<close> holds: the path takes precedence.
\<close>

theorem analyze_csv_neither_or_both:
  "analyze_csv env PNone PNone w = Inl (ValueError ''Provide csv (string) or path.'')
   \<and> analyze_csv_kw env [] w = (Inl (ValueError ''Provide csv (string) or path.''), w)
   \<and> analyze_csv_kw env [(''csv'', csv), (''path'', path)] w =
       (case analyze_csv env csv path w of
          Inl e \<Rightarrow> (Inl e, w)
        | Inr p \<Rightarrow> (Inr (profile_to_py p), w))
   \<and> (truthy path \<longrightarrow>
        analyze_csv env csv path w =
          (case open_path env path w of
             Inl e \<Rightarrow> Inl e
           | Inr s \<Rightarrow>
               (case pd_read_csv env s of
                  Inl e \<Rightarrow> Inl e
                | Inr df \<Rightarrow>
                    (case df_describe env df of
                       Inl e \<Rightarrow> Inl e
                     | Inr d \<Rightarrow>
                         Inr \<lparr>shape = df_shape df, columns = df_columns df,
                              non_null_counts = df_count df, dtypes = df_dtypes df,
                              describe = description_to_dict (fillna d),
                              head = df_records (df_head 5 df)\<rparr>)))
        \<and> analyze_csv env csv path w = analyze_csv env PNone path w)"
  by (simp add: analyze_csv_def read_frame_def analyze_csv_kw_def split: sum.splits)

theorem analyze_csv_neither_or_both_witness:
  "truthy (PStr ''data.csv'')
   \<and> analyze_csv sample_env (PStr ''k,v'') (PStr ''data.csv'') sample_world = Inr sample_summary
   \<and> analyze_csv_kw sample_env [(''csv'', PStr ''k,v''), (''path'', PStr ''data.csv'')] sample_world =
       (Inr (profile_to_py sample_summary), sample_world)
   \<and> analyze_csv sample_env PNone PNone sample_world = Inl (ValueError ''Provide csv (string) or path.'')"
proof -
  have src: "open_path sample_env (PStr ''data.csv'') sample_world = Inr sample_csv"
    by (simp add: sample_env_def sample_world_def)
  have parse: "pd_read_csv sample_env sample_csv = Inr sample_frame"
    by (simp add: sample_env_def)
  have desc: "df_describe sample_env sample_frame = Inr sample_description"
    by (simp add: sample_env_def)
  show ?thesis
    using analyze_csv_neither_or_both [of sample_env sample_world "PStr ''k,v''" "PStr ''data.csv''"]
    by (simp add: src parse desc sample_summary_eq)
qed

text \<open>
  C10. The choice between \<open>path\<close> and \<open>csv\<close> is made by the truth test, not by
  presence: with the empty string as path and a non-empty \<open>csv\<close>, the inline text is
  parsed and profiled and nothing is read at the path, as if no path had been given;
  with the empty string as \<open>csv\<close> and no path, the call raises the ValueError exactly
  as a call with no argument does.
\<close>

theorem analyze_csv_truthiness:
  "(s \<noteq> [] \<longrightarrow>
      analyze_csv env (PStr s) (PStr []) w =
        (case pd_read_csv env s of
           Inl e \<Rightarrow> Inl e
         | Inr df \<Rightarrow>
             (case df_describe env df of
                Inl e \<Rightarrow> Inl e
              | Inr d \<Rightarrow>
                  Inr \<lparr>shape = df_shape df, columns = df_columns df,
                       non_null_counts = df_count df, dtypes = df_dtypes df,
                       describe = description_to_dict (fillna d),
                       head = df_records (df_head 5 df)\<rparr>))
      \<and> read_frame env (PStr s) (PStr []) w = pd_read_csv env s
      \<and> analyze_csv env (PStr s) (PStr []) w = analyze_csv env (PStr s) PNone w)
   \<and> analyze_csv env (PStr []) PNone w = Inl (ValueError ''Provide csv (string) or path.'')
   \<and> analyze_csv env (PStr []) PNone w = analyze_csv env PNone PNone w
   \<and> analyze_csv_kw env [(''csv'', PStr [])] w = analyze_csv_kw env [] w"
  by (simp add: analyze_csv_def read_frame_def analyze_csv_kw_def split: sum.splits)

theorem analyze_csv_truthiness_witness:
  "sample_csv \<noteq> []
   \<and> analyze_csv sample_env (PStr sample_csv) (PStr []) (sample_world\<lparr>files := []\<rparr>) =
       Inr sample_summary
   \<and> analyze_csv sample_env (PStr []) PNone sample_world = Inl (ValueError ''Provide csv (string) or path.'')"
proof -
  have ne: "sample_csv \<noteq> []" by (simp add: sample_csv_def)
  have parse: "pd_read_csv sample_env sample_csv = Inr sample_frame"
    by (simp add: sample_env_def)
  have desc: "df_describe sample_env sample_frame = Inr sample_description"
    by (simp add: sample_env_def)
  show ?thesis
    using analyze_csv_truthiness [of sample_csv sample_env "sample_world\<lparr>files := []\<rparr>"]
      analyze_csv_truthiness [of sample_csv sample_env sample_world]
    by (simp add: ne parse desc sample_summary_eq)
qed

text \<open>
  C8. \<open>analyze_csv\<close> leaves the world as it found it, so a second call with the same
  arguments returns what the first returned; and its result is a function of its
  arguments and, when a path is given, of the text found at that path only: two
  worlds that agree there give the same result.
\<close>

theorem analyze_csv_deterministic:
  "analyze_csv_kw env kwargs (snd (analyze_csv_kw env kwargs w)) = analyze_csv_kw env kwargs w
   \<and> snd (analyze_csv_kw env kwargs w) = w
   \<and> ((truthy path \<longrightarrow> open_path env path w = open_path env path w')
        \<longrightarrow> analyze_csv env csv path w = analyze_csv env csv path w')"
proof -
  have a: "snd (analyze_csv_kw env kwargs w) = w"
    by (simp add: analyze_csv_kw_def split: list.splits sum.splits)
  have b: "analyze_csv env csv path w = analyze_csv env csv path w'"
    if "truthy path \<longrightarrow> open_path env path w = open_path env path w'"
    using that by (simp add: analyze_csv_def read_frame_def)
  show ?thesis using a b by simp
qed

theorem analyze_csv_deterministic_witness:
  "sample_world\<lparr>files := [(''data.csv'', sample_csv), (''notes.txt'', ''changed'')]\<rparr> \<noteq> sample_world
   \<and> truthy (PStr ''data.csv'')
   \<and> open_path sample_env (PStr ''data.csv'') sample_world =
       open_path sample_env (PStr ''data.csv'')
         (sample_world\<lparr>files := [(''data.csv'', sample_csv), (''notes.txt'', ''changed'')]\<rparr>)
   \<and> analyze_csv sample_env PNone (PStr ''data.csv'') sample_world =
       analyze_csv sample_env PNone (PStr ''data.csv'')
         (sample_world\<lparr>files := [(''data.csv'', sample_csv), (''notes.txt'', ''changed'')]\<rparr>)
   \<and> snd (analyze_csv_kw sample_env [(''path'', PStr ''data.csv'')] sample_world) = sample_world"
proof -
  have h: "open_path sample_env (PStr ''data.csv'') sample_world =
       open_path sample_env (PStr ''data.csv'')
         (sample_world\<lparr>files := [(''data.csv'', sample_csv), (''notes.txt'', ''changed'')]\<rparr>)"
    by (simp add: sample_env_def sample_world_def)
  have d: "sample_world\<lparr>files := [(''data.csv'', sample_csv), (''notes.txt'', ''changed'')]\<rparr> \<noteq> sample_world"
    by (simp add: sample_world_def)
  show ?thesis
    using h d analyze_csv_deterministic [of sample_env "[(''path'', PStr ''data.csv'')]" sample_world
        "PStr ''data.csv''" "sample_world\<lparr>files := [(''data.csv'', sample_csv), (''notes.txt'', ''changed'')]\<rparr>" PNone]
    by simp
qed

lemma zip_keys_distinct: "distinct xs \<Longrightarrow> distinct (map fst (zip xs ys))"
  by (simp add: map_fst_zip_take)

text \<open>
  C7. For every input that pandas parses (the text at a path that passes the truth
  test, or else a non-empty inline text) into a frame \<open>df\<close>, \<open>analyze_csv\<close> returns
  a profile when \<open>describe\<close> returns, and raises what \<open>describe\<close> raises otherwise.
  In the profile, \<open>shape\<close> is (rows of data, columns) of \<open>df\<close>, \<open>columns\<close> lists the
  column names and is as long as the second component of \<open>shape\<close>; for a frame with
  distinct column names, \<open>non_null_counts\<close> and \<open>dtypes\<close> give each column its
  number of non-missing values and its dtype label, and \<open>head\<close> holds the first
  rows, five at most, each as the list of (column, value); \<open>describe\<close> holds no
  missing value, each one being replaced by the empty string.
\<close>

theorem analyze_csv_profile:
  assumes src: "(truthy path \<and> open_path env path w = Inr s)
                \<or> (\<not> truthy path \<and> csv = PStr s \<and> s \<noteq> [])"
    and parse: "pd_read_csv env s = Inr df"
  shows "(case df_describe env df of
            Inl e \<Rightarrow> analyze_csv env csv path w = Inl e
          | Inr d \<Rightarrow>
              (\<exists>p. analyze_csv env csv path w = Inr p
                 \<and> shape p = (n_rows df, length (df_cols df))
                 \<and> columns p = map col_name (df_cols df)
                 \<and> length (columns p) = snd (shape p)
                 \<and> (distinct (map col_name (df_cols df)) \<longrightarrow>
                      non_null_counts p =
                        map (\<lambda>c. (col_name c, length (filter (\<lambda>v. \<not> isna v) (col_values c))))
                          (df_cols df)
                      \<and> dtypes p = map (\<lambda>c. (col_name c, col_dtype c)) (df_cols df)
                      \<and> head p =
                          map (\<lambda>i. map (\<lambda>c. (col_name c, col_values c ! i)) (df_cols df))
                            [0..<min 5 (n_rows df)])
                 \<and> length (head p) = min 5 (n_rows df)
                 \<and> length (head p) \<le> 5
                 \<and> list_all (\<lambda>kv. list_all (\<lambda>sv. \<not> isna (snd sv)) (snd kv)) (describe p)
                 \<and> (distinct (map col_name (stat_cols d)) \<and> distinct (stat_names d) \<longrightarrow>
                      describe p =
                        map (\<lambda>c. (col_name c, zip (stat_names d) (map fill_value (col_values c))))
                          (stat_cols d))))"
proof -
  have df: "read_frame env csv path w = Inr df"
    using src parse by (auto simp: read_frame_def)
  show ?thesis
  proof (cases "df_describe env df")
    case (Inl e)
    with df show ?thesis by (simp add: analyze_csv_def)
  next
    case (Inr d)
    define p where "p = \<lparr>shape = df_shape df, columns = df_columns df, non_null_counts = df_count df,
                   dtypes = df_dtypes df, describe = description_to_dict (fillna d),
                   head = df_records (df_head 5 df)\<rparr>"
    have r: "analyze_csv env csv path w = Inr p"
      using df Inr by (simp add: analyze_csv_def p_def)
    have c1: "shape p = (n_rows df, length (df_cols df))" by (simp add: p_def df_shape_def)
    have c2: "columns p = map col_name (df_cols df)" by (simp add: p_def df_columns_def)
    have c3: "length (columns p) = snd (shape p)" by (simp add: c1 c2)
    have c4: "non_null_counts p =
         map (\<lambda>c. (col_name c, length (filter (\<lambda>v. \<not> isna v) (col_values c)))) (df_cols df)"
      if "distinct (map col_name (df_cols df))"
      using that by (simp add: p_def df_count_def py_dict_distinct comp_def)
    have c5: "dtypes p = map (\<lambda>c. (col_name c, col_dtype c)) (df_cols df)"
      if "distinct (map col_name (df_cols df))"
      using that by (simp add: p_def df_dtypes_def py_dict_distinct comp_def)
    have c6: "head p =
         map (\<lambda>i. map (\<lambda>c. (col_name c, col_values c ! i)) (df_cols df)) [0..<min 5 (n_rows df)]"
      if "distinct (map col_name (df_cols df))"
      using that by (simp add: p_def df_records_def df_head_def py_dict_distinct comp_def)
    have c7: "length (head p) = min 5 (n_rows df)" by (simp add: p_def df_records_def df_head_def)
    have c8: "length (head p) \<le> 5" by (simp add: c7)
    have c9: "list_all (\<lambda>kv. list_all (\<lambda>sv. \<not> isna (snd sv)) (snd kv)) (describe p)"
      using describe_filled [of d] by (simp add: p_def)
    have c10: "describe p =
         map (\<lambda>c. (col_name c, zip (stat_names d) (map fill_value (col_values c)))) (stat_cols d)"
      if "distinct (map col_name (stat_cols d)) \<and> distinct (stat_names d)"
      using that
      by (simp add: p_def description_to_dict_def fillna_def py_dict_distinct comp_def zip_keys_distinct)
    have "\<exists>p. analyze_csv env csv path w = Inr p
                 \<and> shape p = (n_rows df, length (df_cols df))
                 \<and> columns p = map col_name (df_cols df)
                 \<and> length (columns p) = snd (shape p)
                 \<and> (distinct (map col_name (df_cols df)) \<longrightarrow>
                      non_null_counts p =
                        map (\<lambda>c. (col_name c, length (filter (\<lambda>v. \<not> isna v) (col_values c))))
                          (df_cols df)
                      \<and> dtypes p = map (\<lambda>c. (col_name c, col_dtype c)) (df_cols df)
                      \<and> head p =
                          map (\<lambda>i. map (\<lambda>c. (col_name c, col_values c ! i)) (df_cols df))
                            [0..<min 5 (n_rows df)])
                 \<and> length (head p) = min 5 (n_rows df)
                 \<and> length (head p) \<le> 5
                 \<and> list_all (\<lambda>kv. list_all (\<lambda>sv. \<not> isna (snd sv)) (snd kv)) (describe p)
                 \<and> (distinct (map col_name (stat_cols d)) \<and> distinct (stat_names d) \<longrightarrow>
                      describe p =
                        map (\<lambda>c. (col_name c, zip (stat_names d) (map fill_value (col_values c))))
                          (stat_cols d))"
      using r c1 c2 c3 c4 c5 c6 c7 c8 c9 c10 by blast
    with Inr show ?thesis by simp
  qed
qed

theorem analyze_csv_profile_witness:
  "\<not> truthy PNone \<and> sample_csv \<noteq> []
   \<and> pd_read_csv sample_env sample_csv = Inr sample_frame
   \<and> df_describe sample_env sample_frame = Inr sample_description
   \<and> (\<exists>p. analyze_csv sample_env (PStr sample_csv) PNone sample_world = Inr p
         \<and> shape p = (2, 2) \<and> columns p = [''a'', ''b''] \<and> length (head p) = 2
         \<and> non_null_counts p = [(''a'', 2), (''b'', 2)]
         \<and> dtypes p = [(''a'', ''int64''), (''b'', ''object'')]
         \<and> list_all (\<lambda>kv. list_all (\<lambda>sv. \<not> isna (snd sv)) (snd kv)) (describe p))"
proof -
  have ne: "sample_csv \<noteq> []" by (simp add: sample_csv_def)
  have src: "(truthy PNone \<and> open_path sample_env PNone sample_world = Inr sample_csv)
      \<or> (\<not> truthy PNone \<and> PStr sample_csv = PStr sample_csv \<and> sample_csv \<noteq> [])"
    using ne by simp
  have parse: "pd_read_csv sample_env sample_csv = Inr sample_frame"
    by (simp add: sample_env_def)
  have desc: "df_describe sample_env sample_frame = Inr sample_description"
    by (simp add: sample_env_def)
  show ?thesis
    using analyze_csv_profile [OF src parse] ne parse desc
    by (auto simp: sample_frame_def)
qed

subsection \<open>The tool-invocation loop\<close>

lemma registry_names: "(map_of (CUSTOM_TOOLS env) n = None) = (\<not> registered n)"
  by (simp add: CUSTOM_TOOLS_def registered_def)

lemma call_output_id: "tool_call_id (fst (call_output env tool call w)) = call_id call"
  by (simp add: call_output_def Let_def split: prod.splits sum.splits)

lemma run_calls_ids:
  "map tool_call_id (fst (run_calls env calls outs w)) =
     map tool_call_id outs @ map call_id (filter (\<lambda>c. registered (call_name c)) calls)"
proof (induction calls arbitrary: outs w)
  case Nil
  show ?case by simp
next
  case (Cons call calls)
  show ?case
  proof (cases "map_of (CUSTOM_TOOLS env) (call_name call)")
    case None
    then have "\<not> registered (call_name call)" by (simp add: registry_names)
    with None show ?thesis by (simp add: Cons.IH)
  next
    case (Some tool)
    then have r: "registered (call_name call)" using registry_names [of env "call_name call"] by simp
    obtain out w1 where o: "call_output env tool call w = (out, w1)" by (cases "call_output env tool call w")
    have "tool_call_id out = call_id call" using call_output_id [of env tool call w] o by simp
    with Some r o show ?thesis by (simp add: Cons.IH)
  qed
qed

lemma run_calls_append:
  "run_calls env (xs @ ys) outs w =
     (case run_calls env xs outs w of (outs1, w1) \<Rightarrow> run_calls env ys outs1 w1)"
  by (induction xs arbitrary: outs w) (simp_all split: option.splits prod.splits)

lemma run_calls_extends:
  "\<exists>rest. fst (run_calls env calls outs w) = outs @ rest"
proof (induction calls arbitrary: outs w)
  case Nil
  show ?case by simp
next
  case (Cons call calls)
  show ?case
  proof (cases "map_of (CUSTOM_TOOLS env) (call_name call)")
    case None
    with Cons.IH [of outs w] show ?thesis by simp
  next
    case (Some tool)
    obtain out w1 where o: "call_output env tool call w = (out, w1)" by (cases "call_output env tool call w")
    from Cons.IH [of "outs @ [out]" w1] obtain rest where
      "fst (run_calls env calls (outs @ [out]) w1) = (outs @ [out]) @ rest" ..
    with Some o show ?thesis by simp
  qed
qed

lemma tool_loop_trips:
  "list_all answers_registered trips \<Longrightarrow>
     list_all answers_registered (fst (snd (tool_loop n env resp trips w)))"
proof (induction n arbitrary: resp trips w)
  case 0
  then show ?case by simp
next
  case (Suc n)
  show ?case
  proof (cases "tool_calls resp = []")
    case True
    with Suc.prems show ?thesis by simp
  next
    case False
    obtain outs w1 where rc: "run_calls env (tool_calls resp) [] w = (outs, w1)"
      by (cases "run_calls env (tool_calls resp) [] w")
    show ?thesis
    proof (cases "outs = []")
      case True
      with False rc Suc.prems show ?thesis by simp
    next
      case ne: False
      have ids: "map tool_call_id outs =
          map call_id (filter (\<lambda>c. registered (call_name c)) (tool_calls resp))"
        using run_calls_ids [of env "tool_calls resp" "[]" w] rc by simp
      have "answers_registered (resp, outs)"
        using ne ids by (simp add: answers_registered_def)
      with Suc.prems have ok: "list_all answers_registered (trips @ [(resp, outs)])"
        by simp
      obtain r w2 where sub: "submit_tool_outputs env (resp_id resp) outs w1 = (r, w2)"
        by (cases "submit_tool_outputs env (resp_id resp) outs w1")
      show ?thesis
      proof (cases r)
        case (Inl e)
        with False rc ne sub ok show ?thesis by simp
      next
        case (Inr resp')
        with False rc ne sub Suc.IH [OF ok, of resp' w2] show ?thesis by simp
      qed
    qed
  qed
qed

lemma run_calls_none:
  "(fst (run_calls env calls [] w) = []) = list_all (\<lambda>c. \<not> registered (call_name c)) calls"
proof -
  have "(fst (run_calls env calls [] w) = []) = (map tool_call_id (fst (run_calls env calls [] w)) = [])"
    by simp
  also have "\<dots> = (filter (\<lambda>c. registered (call_name c)) calls = [])"
    by (simp only: run_calls_ids) simp
  also have "\<dots> = list_all (\<lambda>c. \<not> registered (call_name c)) calls"
    by (simp add: filter_empty_conv list_all_iff)
  finally show ?thesis .
qed

lemma run_calls_unregistered:
  "list_all (\<lambda>c. \<not> registered (call_name c)) calls \<Longrightarrow> run_calls env calls outs w = (outs, w)"
proof (induction calls)
  case Nil
  show ?case by simp
next
  case (Cons call calls)
  then have "map_of (CUSTOM_TOOLS env) (call_name call) = None"
    by (simp add: registry_names)
  with Cons show ?case by simp
qed

lemma run_with_tools_trips:
  "list_all answers_registered (fst (snd (run_with_tools fuel env prompt cfg w)))"
proof -
  obtain r w1 where c: "responses_create env ''gpt-4.1''
      (PList [PDict [(''role'', PStr ''user''), (''content'', PStr prompt)]]) cfg w = (r, w1)"
    by (cases "responses_create env ''gpt-4.1''
      (PList [PDict [(''role'', PStr ''user''), (''content'', PStr prompt)]]) cfg w")
  show ?thesis
  proof (cases r)
    case (Inl e)
    with c show ?thesis by (simp add: run_with_tools_def)
  next
    case (Inr resp)
    with c tool_loop_trips [of "[]" fuel env resp w1] show ?thesis
      by (simp add: run_with_tools_def)
  qed
qed

lemma count_ids:
  "distinct (map f xs) \<Longrightarrow> c \<in> set xs \<Longrightarrow>
     length (filter (\<lambda>y. f y = f c) (filter P xs)) = (if P c then 1 else 0)"
proof (induction xs)
  case Nil
  then show ?case by simp
next
  case (Cons x xs)
  show ?case
  proof (cases "c = x")
    case True
    have "f x \<notin> f ` set xs" using Cons.prems(1) by simp
    then have "\<forall>y \<in> set xs. f y \<noteq> f x" by (metis imageI)
    then have "filter (\<lambda>y. f y = f x) (filter P xs) = []"
      by (simp add: filter_empty_conv)
    with True show ?thesis by simp
  next
    case False
    with Cons.prems have cin: "c \<in> set xs" and d: "distinct (map f xs)" by auto
    have "f x \<noteq> f c" using Cons.prems(1) cin by auto
    with Cons.IH [OF d cin] show ?thesis by (auto split: if_splits)
  qed
qed

lemma results_for_registered:
  assumes "answers_registered trip" and "distinct (map call_id (tool_calls (fst trip)))"
    and "c \<in> set (tool_calls (fst trip))"
  shows "results_for trip c = (if registered (call_name c) then 1 else 0)"
proof -
  have "results_for trip c = length (filter (\<lambda>j. j = call_id c) (map tool_call_id (snd trip)))"
    by (simp add: results_for_def filter_map comp_def)
  also have "\<dots> = length (filter (\<lambda>j. j = call_id c)
      (map call_id (filter (\<lambda>c. registered (call_name c)) (tool_calls (fst trip)))))"
    using assms(1) by (simp add: answers_registered_def)
  also have "\<dots> = length (filter (\<lambda>y. call_id y = call_id c)
      (filter (\<lambda>c. registered (call_name c)) (tool_calls (fst trip))))"
    by (simp only: filter_map length_map comp_def)
  also have "\<dots> = (if registered (call_name c) then 1 else 0)"
    using assms(2,3) by (rule count_ids)
  finally show ?thesis .
qed

lemmas sample_defs =
  sample_env_def sample_world_def mixed_world_def unknown_world_def failing_world_def
  sample_mixed_request_def sample_unknown_request_def sample_failing_request_def
  sample_answer_def tool_call_def text_item_def page_of_def sample_documents_def sample_html_def sample_nested_table_def

lemmas loop_defs =
  run_with_tools_def tool_calls_def output_items_def CUSTOM_TOOLS_def call_output_def
  apply_kwargs_def py_or_def json_dumps_def error_payload_def

lemmas fetch_defs =
  fetch_url_kw_def fetch_url_def raise_for_status_def BeautifulSoup_def page_title_def
  page_table_preview_def find_tag_def find_all_def get_text_strip_def page_to_py_def
  strip_def isspace_def

lemma sample_mixed_run:
  "run_with_tools (Suc (Suc 0)) sample_env ''Summarise the page'' tools_config mixed_world =
     (Some (Inr sample_answer),
      [(sample_mixed_request,
        [\<lparr>tool_call_id = ''call_1'', output_json = ''titleh1stable_previewlength''\<rparr>])],
      sample_world)"
  by (simp add: sample_defs loop_defs fetch_defs)

lemma sample_unknown_run:
  "run_with_tools (Suc 0) sample_env ''Weather in Oslo?'' tools_config unknown_world =
     (Some (Inr sample_unknown_request), [], sample_world\<lparr>script := [sample_answer]\<rparr>)"
  by (simp add: sample_defs loop_defs)

lemma sample_failing_run:
  "run_with_tools (Suc (Suc 0)) sample_env ''Summarise the page'' tools_config failing_world =
     (Some (Inr sample_answer),
      [(sample_failing_request, [\<lparr>tool_call_id = ''call_1'', output_json = ''error''\<rparr>])],
      sample_world)"
  by (simp add: sample_defs loop_defs fetch_defs)

text \<open>
  C1, as stated, fails. The endpoint requests \<open>fetch_url\<close> (id \<open>call_1\<close>) and
  \<open>lookup_weather\<close> (id \<open>call_2\<close>), which is not in the registry: the loop issues the
  next round-trip with a batch that holds a result for \<open>call_1\<close> only, so the request
  \<open>call_2\<close> has received no result.
\<close>

theorem unregistered_request_gets_no_result:
  "fst (snd (run_with_tools (Suc (Suc 0)) sample_env ''Summarise the page'' tools_config mixed_world)) =
     [(sample_mixed_request,
       [\<lparr>tool_call_id = ''call_1'', output_json = ''titleh1stable_previewlength''\<rparr>])]
   \<and> map call_id (tool_calls sample_mixed_request) = [''call_1'', ''call_2'']
   \<and> \<not> list_all spec_answers_all
         (fst (snd (run_with_tools (Suc (Suc 0)) sample_env ''Summarise the page'' tools_config mixed_world)))"
  by (simp add: sample_mixed_run spec_answers_all_def results_for_def tool_calls_def output_items_def
      sample_mixed_request_def tool_call_def)

text \<open>
  C1, amended. In every run of the loop, whatever the number of its iterations, each
  round-trip submits a non-empty batch whose ids are the ids of the requests of the
  answered response whose name is in the registry, in their order: when the ids of
  the requests are distinct, a request of the registry receives exactly one result
  with its id and any other request none. And the loop is terminal as soon as a
  response holds no tool-call request: it returns that response, without a further
  round-trip.
\<close>

theorem registered_requests_answered_once:
  "list_all answers_registered (fst (snd (run_with_tools fuel env prompt cfg w)))
   \<and> list_all (\<lambda>trip. distinct (map call_id (tool_calls (fst trip))) \<longrightarrow>
        list_all (\<lambda>c. results_for trip c = (if registered (call_name c) then 1 else 0))
          (tool_calls (fst trip)))
       (fst (snd (run_with_tools fuel env prompt cfg w)))
   \<and> (tool_calls resp = [] \<longrightarrow>
        tool_loop (Suc n) env resp trips w = (Some (Inr resp), trips, w))"
proof -
  have a: "list_all answers_registered (fst (snd (run_with_tools fuel env prompt cfg w)))"
    by (rule run_with_tools_trips)
  have b: "list_all (\<lambda>c. results_for trip c = (if registered (call_name c) then 1 else 0))
          (tool_calls (fst trip))"
    if "answers_registered trip" and "distinct (map call_id (tool_calls (fst trip)))" for trip
    using results_for_registered [OF that] by (simp add: list_all_iff)
  from a b have "list_all (\<lambda>trip. distinct (map call_id (tool_calls (fst trip))) \<longrightarrow>
        list_all (\<lambda>c. results_for trip c = (if registered (call_name c) then 1 else 0))
          (tool_calls (fst trip)))
       (fst (snd (run_with_tools fuel env prompt cfg w)))"
    by (simp add: list_all_iff)
  with a show ?thesis by simp
qed

theorem registered_requests_answered_once_witness:
  "list_all answers_registered
     [(sample_mixed_request,
       [\<lparr>tool_call_id = ''call_1'', output_json = ''titleh1stable_previewlength''\<rparr>])]
   \<and> results_for
        (sample_mixed_request,
         [\<lparr>tool_call_id = ''call_1'', output_json = ''titleh1stable_previewlength''\<rparr>])
        (tool_call ''call_1'' ''fetch_url'' (PDict [(''url'', PStr ''http://demo/'')])) = 1
   \<and> tool_calls sample_answer = []
   \<and> tool_loop (Suc 0) sample_env sample_answer [] mixed_world =
        (Some (Inr sample_answer), [], mixed_world)"
proof -
  have t: "tool_calls sample_answer = []"
    by (simp add: tool_calls_def output_items_def sample_answer_def text_item_def)
  have d: "distinct (map call_id (tool_calls sample_mixed_request))"
    by (simp add: tool_calls_def output_items_def sample_mixed_request_def tool_call_def)
  have c: "tool_calls sample_mixed_request =
      [tool_call ''call_1'' ''fetch_url'' (PDict [(''url'', PStr ''http://demo/'')]),
       tool_call ''call_2'' ''lookup_weather'' (PDict [(''city'', PStr ''Oslo'')])]"
    by (simp add: tool_calls_def output_items_def sample_mixed_request_def tool_call_def)
  have r: "registered (call_name (tool_call ''call_1'' ''fetch_url'' (PDict [(''url'', PStr ''http://demo/'')])))"
    by (simp add: registered_def tool_call_def)
  show ?thesis
    using registered_requests_answered_once [where fuel = "Suc (Suc 0)" and env = sample_env
        and prompt = "''Summarise the page''" and cfg = tools_config and w = mixed_world
        and resp = sample_answer and n = 0 and trips = "[]"] t d c r
    by (simp add: sample_mixed_run del: tool_loop.simps)
qed

text \<open>
  C2. When a response holds tool-call requests and every requested name misses the
  registry, no output is produced and the loop returns that response at once: no
  round-trip is issued and the world is left as it was. No output is produced exactly
  when every name misses, and no round-trip of any run carries an empty batch.
\<close>

theorem unknown_tools_end_the_loop:
  "(tool_calls resp \<noteq> [] \<and> list_all (\<lambda>c. \<not> registered (call_name c)) (tool_calls resp) \<longrightarrow>
      tool_loop (Suc n) env resp trips w = (Some (Inr resp), trips, w))
   \<and> (fst (run_calls env calls [] w) = []) = list_all (\<lambda>c. \<not> registered (call_name c)) calls
   \<and> list_all (\<lambda>trip. snd trip \<noteq> []) (fst (snd (run_with_tools fuel env prompt cfg w)))"
proof -
  have a: "tool_loop (Suc n) env resp trips w = (Some (Inr resp), trips, w)"
    if "list_all (\<lambda>c. \<not> registered (call_name c)) (tool_calls resp)"
    using run_calls_unregistered [OF that, of env "[]" w] by simp
  have "list_all answers_registered (fst (snd (run_with_tools fuel env prompt cfg w)))"
    by (rule run_with_tools_trips)
  then have c: "list_all (\<lambda>trip. snd trip \<noteq> []) (fst (snd (run_with_tools fuel env prompt cfg w)))"
    by (simp add: list_all_iff answers_registered_def)
  show ?thesis using a c run_calls_none [of env calls w] by (simp del: tool_loop.simps)
qed

theorem unknown_tools_end_the_loop_witness:
  "tool_calls sample_unknown_request \<noteq> []
   \<and> list_all (\<lambda>c. \<not> registered (call_name c)) (tool_calls sample_unknown_request)
   \<and> tool_loop (Suc 0) sample_env sample_unknown_request [] (sample_world\<lparr>script := [sample_answer]\<rparr>) =
       (Some (Inr sample_unknown_request), [], sample_world\<lparr>script := [sample_answer]\<rparr>)
   \<and> run_with_tools (Suc 0) sample_env ''Weather in Oslo?'' tools_config unknown_world =
       (Some (Inr sample_unknown_request), [], sample_world\<lparr>script := [sample_answer]\<rparr>)"
proof -
  have c: "tool_calls sample_unknown_request =
      [tool_call ''call_1'' ''lookup_weather'' (PDict [(''city'', PStr ''Oslo'')])]"
    by (simp add: tool_calls_def output_items_def sample_unknown_request_def tool_call_def)
  have u: "\<not> registered (call_name (tool_call ''call_1'' ''lookup_weather'' (PDict [(''city'', PStr ''Oslo'')])))"
    by (simp add: registered_def tool_call_def)
  show ?thesis
    using unknown_tools_end_the_loop [where resp = sample_unknown_request and n = 0
        and env = sample_env and trips = "[]" and w = "sample_world\<lparr>script := [sample_answer]\<rparr>"] c u
    by (simp add: sample_unknown_run del: tool_loop.simps)
qed

lemma error_payload_serializable:
  "json_dumps env (error_payload e) = Inr (json_encode env (error_payload e))"
  by (simp add: json_dumps_def error_payload_def)

text \<open>
  C3. When the tool of a request found in the registry raises \<open>e\<close> (or the
  serialisation of its result does), the loop appends for the id of that request the
  result whose output is the serialised \<open>{"error": str(e)}\<close>, which \<open>json.dumps\<close>
  always accepts; the outputs collected before it are kept, the loop goes on with the
  remaining requests and then issues the next round-trip with the batch.
\<close>

theorem tool_exception_becomes_error_result:
  assumes calls: "tool_calls resp = pre @ call # post"
    and reg: "map_of (CUSTOM_TOOLS env) (call_name call) = Some tool"
    and pre: "run_calls env pre [] w = (outs0, w0)"
    and run: "apply_kwargs (call_name call) tool (py_or (arguments call) (PDict [])) w0 = (r, w1)"
    and raised: "(case r of Inl e \<Rightarrow> Inl e | Inr result \<Rightarrow> json_dumps env result) = Inl e"
  shows "json_dumps env (PDict [(''error'', PStr (str e))]) =
           Inr (json_encode env (PDict [(''error'', PStr (str e))]))
    \<and> (\<exists>rest w2.
      run_calls env (tool_calls resp) [] w =
        (outs0 @ \<lparr>tool_call_id = call_id call,
                  output_json = json_encode env (PDict [(''error'', PStr (str e))])\<rparr> # rest, w2)
      \<and> tool_loop (Suc n) env resp trips w =
          (case submit_tool_outputs env (resp_id resp)
                  (outs0 @ \<lparr>tool_call_id = call_id call,
                            output_json = json_encode env (PDict [(''error'', PStr (str e))])\<rparr> # rest) w2 of
             (Inl e', w3) \<Rightarrow>
               (Some (Inl e'),
                trips @ [(resp, outs0 @ \<lparr>tool_call_id = call_id call,
                            output_json = json_encode env (PDict [(''error'', PStr (str e))])\<rparr> # rest)], w3)
           | (Inr resp', w3) \<Rightarrow>
               tool_loop n env resp'
                 (trips @ [(resp, outs0 @ \<lparr>tool_call_id = call_id call,
                            output_json = json_encode env (PDict [(''error'', PStr (str e))])\<rparr> # rest)]) w3))"
proof -
  let ?err = "\<lparr>tool_call_id = call_id call,
                output_json = json_encode env (PDict [(''error'', PStr (str e))])\<rparr>"
  have out: "call_output env tool call w0 = (?err, w1)"
    using run raised by (simp add: call_output_def error_payload_def)
  obtain rest0 w2 where post: "run_calls env post (outs0 @ [?err]) w1 = (rest0, w2)"
    by (cases "run_calls env post (outs0 @ [?err]) w1")
  from run_calls_extends [of env post "outs0 @ [?err]" w1] post
  obtain rest where rest: "rest0 = (outs0 @ [?err]) @ rest" by auto
  have all: "run_calls env (tool_calls resp) [] w = (outs0 @ ?err # rest, w2)"
    using calls reg pre out post rest by (simp add: run_calls_append)
  have ne: "tool_calls resp \<noteq> []" using calls by simp
  have loop: "tool_loop (Suc n) env resp trips w =
          (case submit_tool_outputs env (resp_id resp) (outs0 @ ?err # rest) w2 of
             (Inl e', w3) \<Rightarrow> (Some (Inl e'), trips @ [(resp, outs0 @ ?err # rest)], w3)
           | (Inr resp', w3) \<Rightarrow> tool_loop n env resp' (trips @ [(resp, outs0 @ ?err # rest)]) w3)"
    using ne all by simp
  have dumps: "json_dumps env (PDict [(''error'', PStr (str e))]) =
           Inr (json_encode env (PDict [(''error'', PStr (str e))]))"
    using error_payload_serializable [of env e] by (simp add: error_payload_def)
  from all loop have "\<exists>rest w2.
      run_calls env (tool_calls resp) [] w = (outs0 @ ?err # rest, w2)
      \<and> tool_loop (Suc n) env resp trips w =
          (case submit_tool_outputs env (resp_id resp) (outs0 @ ?err # rest) w2 of
             (Inl e', w3) \<Rightarrow> (Some (Inl e'), trips @ [(resp, outs0 @ ?err # rest)], w3)
           | (Inr resp', w3) \<Rightarrow> tool_loop n env resp' (trips @ [(resp, outs0 @ ?err # rest)]) w3)"
    by blast
  with dumps show ?thesis by simp
qed

theorem tool_exception_becomes_error_result_witness:
  "tool_calls sample_failing_request =
     [] @ tool_call ''call_1'' ''fetch_url'' (PDict [(''url'', PStr ''http://down/'')]) # []
   \<and> map_of (CUSTOM_TOOLS sample_env) ''fetch_url'' = Some (fetch_url_kw sample_env)
   \<and> apply_kwargs ''fetch_url'' (fetch_url_kw sample_env) (PDict [(''url'', PStr ''http://down/'')])
         sample_world =
       (Inl (Exception ''ConnectionError'' ''unreachable''), sample_world)
   \<and> (\<exists>rest w2.
        run_calls sample_env (tool_calls sample_failing_request) [] sample_world =
          (\<lparr>tool_call_id = ''call_1'',
            output_json = json_encode sample_env (PDict [(''error'', PStr ''unreachable'')])\<rparr> # rest, w2))
   \<and> run_with_tools (Suc (Suc 0)) sample_env ''Summarise the page'' tools_config failing_world =
       (Some (Inr sample_answer),
        [(sample_failing_request, [\<lparr>tool_call_id = ''call_1'', output_json = ''error''\<rparr>])],
        sample_world)"
proof -
  have calls: "tool_calls sample_failing_request =
     [] @ tool_call ''call_1'' ''fetch_url'' (PDict [(''url'', PStr ''http://down/'')]) # []"
    by (simp add: tool_calls_def output_items_def sample_failing_request_def tool_call_def)
  have reg: "map_of (CUSTOM_TOOLS sample_env)
      (call_name (tool_call ''call_1'' ''fetch_url'' (PDict [(''url'', PStr ''http://down/'')]))) =
      Some (fetch_url_kw sample_env)"
    by (simp add: CUSTOM_TOOLS_def tool_call_def)
  have pre: "run_calls sample_env [] [] sample_world = ([], sample_world)" by simp
  have run: "apply_kwargs
      (call_name (tool_call ''call_1'' ''fetch_url'' (PDict [(''url'', PStr ''http://down/'')])))
      (fetch_url_kw sample_env)
      (py_or (arguments (tool_call ''call_1'' ''fetch_url'' (PDict [(''url'', PStr ''http://down/'')])))
         (PDict [])) sample_world =
      (Inl (Exception ''ConnectionError'' ''unreachable''), sample_world)"
    by (simp add: apply_kwargs_def py_or_def tool_call_def fetch_url_kw_def fetch_url_def
        sample_env_def sample_world_def)
  have raised: "(case Inl (Exception ''ConnectionError'' ''unreachable'') of
        Inl e \<Rightarrow> Inl e | Inr result \<Rightarrow> json_dumps sample_env result) =
      Inl (Exception ''ConnectionError'' ''unreachable'')"
    by simp
  show ?thesis
    using tool_exception_becomes_error_result [OF calls reg pre run raised, of 0 "[]"] calls reg run
    by (auto simp: sample_failing_run tool_call_def py_or_def simp del: tool_loop.simps)
qed

subsection \<open>The web front end\<close>

text \<open>
  C9 at the body \<open>{"prompt": 5}\<close>: \<open>(data.get("prompt") or "").strip()\<close> raises an
  AttributeError before the \<open>try\<close> block is entered, so the exception leaves the
  handler and no JSON document with the \<open>ok\<close> field is returned.
\<close>

theorem run_endpoint_non_string_prompt:
  "run_endpoint fuel env (PDict [(''prompt'', PInt 5)]) w =
     (Some (Inl (AttributeError (quoted ''int'' @ '' object has no attribute '' @ quoted ''strip''))), [], w)"
  by (simp add: run_endpoint_def py_or_def dict_get_def str_strip_def no_attribute_def)

text \<open>
  For a body that holds no document, or an object whose prompt is a string, the
  handler returns one of the three JSON replies.
\<close>

lemma run_endpoint_no_document:
  "run_endpoint fuel env PNone w =
     (Some (Inr \<lparr>status = 400,
                 json_body = PDict [(''ok'', PBool False), (''error'', PStr ''Missing prompt'')]\<rparr>),
      [], w)"
  by (simp add: run_endpoint_def py_or_def dict_get_def str_strip_def strip_def)

lemma run_endpoint_string_prompt:
  "run_endpoint fuel env (PDict [(''prompt'', PStr s)]) w =
     (if strip s = []
      then (Some (Inr \<lparr>status = 400,
                       json_body = PDict [(''ok'', PBool False),
                                          (''error'', PStr ''Missing prompt'')]\<rparr>), [], w)
      else
        (case run_with_tools fuel env (strip s) tools_config w of
           (None, trips, w1) \<Rightarrow> (None, trips, w1)
         | (Some (Inl e), trips, w1) \<Rightarrow>
             (Some (Inr \<lparr>status = 500,
                         json_body = PDict [(''ok'', PBool False), (''error'', PStr (str e))]\<rparr>),
              trips, w1)
         | (Some (Inr resp), trips, w1) \<Rightarrow>
             (Some (Inr \<lparr>status = 200,
                         json_body = PDict [(''ok'', PBool True),
                                            (''text'', PStr (extract_text resp))]\<rparr>),
              trips, w1)))"
  by (simp add: run_endpoint_def py_or_def dict_get_def str_strip_def strip_def)

subsection \<open>fetch_url\<close>

lemma append_rows_map:
  "append_rows trs rows = rows @ map (\<lambda>tr. map get_text_strip (find_all [''td'', ''th''] tr)) trs"
  by (induction trs arbitrary: rows) simp_all

lemma find_all_Tag:
  "find_all names (Tag n cs) =
     concat (map (\<lambda>c. (if is_tag_named names c then [c] else []) @ find_all names c) cs)"
  by (induction cs) (simp_all add: find_all_def)

lemma find_all_no_children: "children t = [] \<Longrightarrow> find_all names t = []"
  by (cases t) (simp_all add: find_all_def)

lemma find_all_children:
  assumes "list_all (\<lambda>c. find_all names c = []) (children t)"
  shows "find_all names t = filter (is_tag_named names) (children t)"
proof (cases t)
  case (Tag n cs)
  have "list_all (\<lambda>c. find_all names c = []) cs \<Longrightarrow>
      concat (map (\<lambda>c. (if is_tag_named names c then [c] else []) @ find_all names c) cs) =
      filter (is_tag_named names) cs"
    by (induction cs) simp_all
  with assms Tag show ?thesis by (simp add: find_all_Tag)
next
  case (NavigableString s)
  then show ?thesis by (simp add: find_all_def)
next
  case (Comment s)
  then show ?thesis by (simp add: find_all_def)
qed

lemma flat_row_cells: "flat_row tr \<Longrightarrow> find_all [''td'', ''th''] tr = spec_cells tr"
  unfolding flat_row_def spec_cells_def by (rule find_all_children)

lemma flat_table_rows:
  assumes "flat_table table"
  shows "find_all [''tr''] table = spec_rows table"
proof (cases table)
  case (Tag n cs)
  have each: "(if is_tag_named [''tr''] c then [c] else []) @ find_all [''tr''] c =
      (if is_tag_named [''tr''] c then [c]
       else if is_tag_named [''thead'', ''tbody'', ''tfoot''] c
       then filter (is_tag_named [''tr'']) (children c)
       else [])"
    if ok: "if is_tag_named [''thead'', ''tbody'', ''tfoot''] c
            then list_all (\<lambda>r. find_all [''tr''] r = []) (children c)
            else find_all [''tr''] c = []"
    for c
  proof (cases "is_tag_named [''thead'', ''tbody'', ''tfoot''] c")
    case True
    then have no: "\<not> is_tag_named [''tr''] c" by (cases c) auto
    from True ok have "find_all [''tr''] c = filter (is_tag_named [''tr'']) (children c)"
      by (simp add: find_all_children)
    with True no show ?thesis by simp
  next
    case False
    with ok show ?thesis by simp
  qed
  have all: "\<forall>c \<in> set cs.
      if is_tag_named [''thead'', ''tbody'', ''tfoot''] c
      then list_all (\<lambda>r. find_all [''tr''] r = []) (children c)
      else find_all [''tr''] c = []"
    using assms Tag by (simp add: flat_table_def list_all_iff)
  have "map (\<lambda>c. (if is_tag_named [''tr''] c then [c] else []) @ find_all [''tr''] c) cs =
      map (\<lambda>c. if is_tag_named [''tr''] c then [c]
                else if is_tag_named [''thead'', ''tbody'', ''tfoot''] c
                then filter (is_tag_named [''tr'']) (children c)
                else []) cs"
  proof (rule map_cong [OF refl])
    fix c
    assume "c \<in> set cs"
    with all have "if is_tag_named [''thead'', ''tbody'', ''tfoot''] c
      then list_all (\<lambda>r. find_all [''tr''] r = []) (children c)
      else find_all [''tr''] c = []"
      by blast
    then show "(if is_tag_named [''tr''] c then [c] else []) @ find_all [''tr''] c =
      (if is_tag_named [''tr''] c then [c]
       else if is_tag_named [''thead'', ''tbody'', ''tfoot''] c
       then filter (is_tag_named [''tr'']) (children c)
       else [])"
      by (rule each)
  qed
  then have eq: "concat (map (\<lambda>c. (if is_tag_named [''tr''] c then [c] else []) @ find_all [''tr''] c) cs) =
      concat (map (\<lambda>c. if is_tag_named [''tr''] c then [c]
                else if is_tag_named [''thead'', ''tbody'', ''tfoot''] c
                then filter (is_tag_named [''tr'']) (children c)
                else []) cs)"
    by (rule arg_cong)
  have "find_all [''tr''] table =
      concat (map (\<lambda>c. (if is_tag_named [''tr''] c then [c] else []) @ find_all [''tr''] c) cs)"
    using Tag by (simp only: find_all_Tag)
  also note eq
  also have "concat (map (\<lambda>c. if is_tag_named [''tr''] c then [c]
                else if is_tag_named [''thead'', ''tbody'', ''tfoot''] c
                then filter (is_tag_named [''tr'']) (children c)
                else []) cs) = spec_rows table"
    using Tag by (simp only: spec_rows_def children.simps)
  finally show ?thesis .
next
  case (NavigableString s)
  then show ?thesis by (simp add: find_all_def spec_rows_def)
next
  case (Comment s)
  then show ?thesis by (simp add: find_all_def spec_rows_def)
qed

lemma flat_rows_cells:
  "list_all flat_row trs \<Longrightarrow> map (find_all [''td'', ''th'']) trs = map spec_cells trs"
  by (induction trs) (simp_all add: flat_row_cells)

text \<open>
  C4, as stated, fails on the title and on the table. On a page with an empty title
  element followed by the title element \<open>Foo\<close>, the first non-empty title text is
  \<open>Foo\<close> and \<open>fetch_url\<close> returns the empty string; on a page whose title element
  holds a string and a tag, the title text is \<open>AB\<close> and \<open>fetch_url\<close> returns the
  empty string. On a page whose first table has one row with one cell, which holds a
  second table, the preview has two rows, the first with two entries: the row and the
  cell of the nested table are counted with those of the first table.
\<close>

theorem fetch_url_title_and_table_counterexample:
  "fst (fetch_url sample_env (PStr ''http://two/'') (PBool True) sample_world) =
     Inr \<lparr>title = [], h1s = [], table_preview = None, page_length = 33\<rparr>
   \<and> spec_title (BeautifulSoup sample_env ''<title></title><title>Foo</title>'') = ''Foo''
   \<and> fst (fetch_url sample_env (PStr ''http://nested/'') (PBool True) sample_world) =
     Inr \<lparr>title = [], h1s = [], table_preview = None, page_length = 24\<rparr>
   \<and> spec_title (BeautifulSoup sample_env ''<title>A<b>B</b></title>'') = ''AB''
   \<and> fst (fetch_url sample_env (PStr ''http://tables/'') (PBool True) sample_world) =
     Inr \<lparr>title = [], h1s = [], table_preview = Some [[''oi'', ''i''], [''i'']], page_length = 68\<rparr>
   \<and> map (\<lambda>tr. length (spec_cells tr))
        (spec_rows (hd (find_all [''table''] (BeautifulSoup sample_env sample_nested_table)))) = [1]"
  by (simp add: sample_defs fetch_defs spec_title_def spec_title_text_def spec_rows_def
      spec_cells_def)

text \<open>
  C4, amended. After a successful fetch, \<open>fetch_url\<close> returns: as title, the stripped
  string of the first title element of the page, the empty string when the page has no
  title element or when that element does not hold exactly one string; the texts of
  all h1 elements in document order; the length of the body; and a table preview if
  and only if \<open>take_table\<close> is true and the page holds a table element. The preview
  has at most 6 rows: one for each of the first 6 \<open>tr\<close> elements found anywhere inside
  the first table (those of a table nested in it included), holding the texts of the
  \<open>td\<close> and \<open>th\<close> elements found anywhere inside that \<open>tr\<close>. When nothing is nested
  in the first table and in these rows, the preview covers the first 6 rows of the
  first table and each preview row has one text per cell of its source row.
\<close>

theorem fetch_url_page:
  assumes "requests_get env url w = (Inr resp, w1)" and "raise_for_status resp = None"
  shows "\<exists>p. fetch_url env url take_table w = (Inr p, w1)
     \<and> title p =
         (case find_all [''title''] (BeautifulSoup env (body_text resp)) of
            [] \<Rightarrow> []
          | t # ts \<Rightarrow> (case string_of t of None \<Rightarrow> [] | Some s \<Rightarrow> strip s))
     \<and> h1s p = map get_text_strip (find_all [''h1''] (BeautifulSoup env (body_text resp)))
     \<and> page_length p = length (body_text resp)
     \<and> (table_preview p \<noteq> None) =
         (truthy take_table \<and> find_all [''table''] (BeautifulSoup env (body_text resp)) \<noteq> [])
     \<and> (\<forall>rows. table_preview p = Some rows \<longrightarrow>
           length rows \<le> 6
           \<and> rows =
               map (\<lambda>tr. map get_text_strip (find_all [''td'', ''th''] tr))
                 (take 6 (find_all [''tr''] (hd (find_all [''table''] (BeautifulSoup env (body_text resp))))))
           \<and> map length rows =
               map (\<lambda>tr. length (find_all [''td'', ''th''] tr))
                 (take 6 (find_all [''tr''] (hd (find_all [''table''] (BeautifulSoup env (body_text resp)))))))
     \<and> (\<forall>table tables.
           truthy take_table
           \<and> find_all [''table''] (BeautifulSoup env (body_text resp)) = table # tables
           \<and> flat_table table \<and> list_all flat_row (take 6 (spec_rows table)) \<longrightarrow>
           table_preview p =
             Some (map (\<lambda>tr. map get_text_strip (spec_cells tr)) (take 6 (spec_rows table)))
           \<and> map length (the (table_preview p)) =
               map (\<lambda>tr. length (spec_cells tr)) (take 6 (spec_rows table)))"
proof -
  let ?soup = "BeautifulSoup env (body_text resp)"
  let ?p = "\<lparr>title = page_title ?soup,
             h1s = map get_text_strip (find_all [''h1''] ?soup),
             table_preview = page_table_preview take_table ?soup,
             page_length = length (body_text resp)\<rparr>"
  have f: "fetch_url env url take_table w = (Inr ?p, w1)"
    using assms by (simp add: fetch_url_def Let_def)
  have t: "page_title ?soup =
         (case find_all [''title''] ?soup of
            [] \<Rightarrow> []
          | t # ts \<Rightarrow> (case string_of t of None \<Rightarrow> [] | Some s \<Rightarrow> strip s))"
    by (simp add: page_title_def find_tag_def strip_def split: list.splits option.splits)
  have iff: "(page_table_preview take_table ?soup \<noteq> None) =
         (truthy take_table \<and> find_all [''table''] ?soup \<noteq> [])"
    by (simp add: page_table_preview_def find_tag_def split: list.splits)
  have rows: "length rows \<le> 6
           \<and> rows =
               map (\<lambda>tr. map get_text_strip (find_all [''td'', ''th''] tr))
                 (take 6 (find_all [''tr''] (hd (find_all [''table''] ?soup))))
           \<and> map length rows =
               map (\<lambda>tr. length (find_all [''td'', ''th''] tr))
                 (take 6 (find_all [''tr''] (hd (find_all [''table''] ?soup))))"
    if "page_table_preview take_table ?soup = Some rows" for rows
    using that
    by (auto simp: page_table_preview_def find_tag_def append_rows_map comp_def
        split: if_splits list.splits)
  have flat: "page_table_preview take_table ?soup =
             Some (map (\<lambda>tr. map get_text_strip (spec_cells tr)) (take 6 (spec_rows table)))
           \<and> map length (the (page_table_preview take_table ?soup)) =
               map (\<lambda>tr. length (spec_cells tr)) (take 6 (spec_rows table))"
    if h: "truthy take_table \<and> find_all [''table''] ?soup = table # tables
           \<and> flat_table table \<and> list_all flat_row (take 6 (spec_rows table))"
    for table tables
  proof -
    from h have r: "find_all [''tr''] table = spec_rows table" by (simp add: flat_table_rows)
    from h have "map (find_all [''td'', ''th'']) (take 6 (spec_rows table)) =
        map spec_cells (take 6 (spec_rows table))"
      by (simp add: flat_rows_cells)
    then have "map (map get_text_strip) (map (find_all [''td'', ''th'']) (take 6 (spec_rows table))) =
        map (map get_text_strip) (map spec_cells (take 6 (spec_rows table)))"
      by (rule arg_cong)
    then have c: "map (\<lambda>tr. map get_text_strip (find_all [''td'', ''th''] tr)) (take 6 (spec_rows table)) =
        map (\<lambda>tr. map get_text_strip (spec_cells tr)) (take 6 (spec_rows table))"
      by (simp add: comp_def)
    from h have "page_table_preview take_table ?soup =
        Some (map (\<lambda>tr. map get_text_strip (find_all [''td'', ''th''] tr)) (take 6 (spec_rows table)))"
      by (simp add: page_table_preview_def find_tag_def append_rows_map r)
    with c have "page_table_preview take_table ?soup =
        Some (map (\<lambda>tr. map get_text_strip (spec_cells tr)) (take 6 (spec_rows table)))"
      by simp
    then show ?thesis by (simp add: comp_def)
  qed
  show ?thesis
    using f t iff rows flat by (intro exI [of _ ?p]) simp
qed

theorem fetch_url_page_witness:
  "requests_get sample_env (PStr ''http://demo/'') sample_world = (Inr (page_of sample_html), sample_world)
   \<and> raise_for_status (page_of sample_html) = None
   \<and> truthy (PBool True)
   \<and> flat_table (Tag ''table'' [Tag ''tr'' [Tag ''th'' [NavigableString ''k'']],
                                 Tag ''tr'' [Tag ''td'' [NavigableString ''a'']]])
   \<and> list_all flat_row
        (take 6 (spec_rows (Tag ''table'' [Tag ''tr'' [Tag ''th'' [NavigableString ''k'']],
                                           Tag ''tr'' [Tag ''td'' [NavigableString ''a'']]])))
   \<and> (\<exists>p. fetch_url sample_env (PStr ''http://demo/'') (PBool True) sample_world = (Inr p, sample_world)
         \<and> title p = ''Demo'' \<and> h1s p = [''Hello'']
         \<and> table_preview p = Some [[''k''], [''a'']] \<and> page_length p = 88)"
proof -
  let ?table = "Tag ''table'' [Tag ''tr'' [Tag ''th'' [NavigableString ''k'']],
                               Tag ''tr'' [Tag ''td'' [NavigableString ''a'']]]"
  have get: "requests_get sample_env (PStr ''http://demo/'') sample_world =
      (Inr (page_of sample_html), sample_world)"
    by (simp add: sample_env_def sample_world_def)
  have ok: "raise_for_status (page_of sample_html) = None"
    by (simp add: raise_for_status_def page_of_def)
  have soup: "BeautifulSoup sample_env (body_text (page_of sample_html)) =
      Tag ''[document]''
        [Tag ''title'' [NavigableString '' Demo ''], Tag ''h1'' [NavigableString ''Hello''], ?table]"
    by (simp add: BeautifulSoup_def sample_env_def sample_documents_def page_of_def)
  have len: "length (body_text (page_of sample_html)) = 88"
    by (simp add: page_of_def sample_html_def)
  have tables: "find_all [''table'']
      (Tag ''[document]''
        [Tag ''title'' [NavigableString '' Demo ''], Tag ''h1'' [NavigableString ''Hello''], ?table]) =
      ?table # []"
    by (simp add: find_all_def)
  have ft: "flat_table ?table" by (simp add: flat_table_def find_all_def)
  have fr: "list_all flat_row (take 6 (spec_rows ?table))"
    by (simp add: flat_row_def spec_rows_def find_all_def)
  show ?thesis
    using fetch_url_page [OF get ok, of "PBool True"] get ok ft fr tables
    by (auto simp: soup len find_all_def get_text_strip_def strip_def isspace_def)
qed

end
